theory Spec2Isabelle
  imports Main "HOL-Library.AList"
begin

section \<open>JavaScript values and tag directories\<close>

text \<open>
  The EXIF cleaner works on the document that \<open>piexif.load\<close> returns: an object with
  the five tag groups \<open>0th\<close>, \<open>Exif\<close>, \<open>GPS\<close>, \<open>1st\<close>, \<open>Interop\<close> and a
  \<open>thumbnail\<close> entry. Every group is a JavaScript object from integer tag ids to values.
  A value is a string, a number, or an array (rationals are two-element arrays, so arrays
  nest); \<open>undefined\<close> and \<open>null\<close> are kept as values because the code tests for them.
  Finite numbers are integers here, which is what EXIF stores.
\<close>

datatype jsnum = Fin int | NaN | PosInf | NegInf

datatype jsval = Undefined | Null | Str string | Num jsnum | Arr "jsval list"

text \<open>
  An object is modelled by the list of its entries. A group that is missing from the
  document reads as \<open>undefined\<close> in the source and is replaced by \<open>{}\<close> everywhere it
  is used (\<open>exifObj['0th'] || {}\<close>, \<open>exifObj['GPS'] && ...\<close>, the first line of
  \<open>cleanExifIfd\<close>), so it is the empty list here.
\<close>

type_synonym ifd = "(nat \<times> jsval) list"

record exifdoc =
  zeroth :: ifd
  exif :: ifd
  gps :: ifd
  first :: ifd
  interop :: ifd
  thumbnail :: jsval

text \<open>\<open>obj[k]\<close>: the value stored under the key, \<open>undefined\<close> when there is none.\<close>

definition get_tag :: "ifd \<Rightarrow> nat \<Rightarrow> jsval" where
  "get_tag obj k = (case map_of obj k of None \<Rightarrow> Undefined | Some v \<Rightarrow> v)"

text \<open>\<open>obj[k] = v\<close> and \<open>delete obj[k]\<close>.\<close>

definition set_tag :: "ifd \<Rightarrow> nat \<Rightarrow> jsval \<Rightarrow> ifd" where
  "set_tag obj k v = AList.update k v obj"

definition delete_tag :: "ifd \<Rightarrow> nat \<Rightarrow> ifd" where
  "delete_tag obj k = AList.delete k obj"

text \<open>The truthiness test of \<open>if (v)\<close>.\<close>

fun truthy :: "jsval \<Rightarrow> bool" where
  "truthy Undefined = False"
| "truthy Null = False"
| "truthy (Str s) = (s \<noteq> [])"
| "truthy (Num (Fin i)) = (i \<noteq> 0)"
| "truthy (Num NaN) = False"
| "truthy (Num PosInf) = True"
| "truthy (Num NegInf) = True"
| "truthy (Arr vs) = True"

subsection \<open>String conversion of values in template literals\<close>

text \<open>
  The numbers that reach a template literal are tag values as \<open>piexif.load\<close> returns
  them: integers of at most 32 bits, which JavaScript prints with their decimal digits.
  \<open>string_of_jsnum\<close> prints every integer in this way. From \<open>10^21\<close> on JavaScript
  switches to the exponent form; such a number, like one with a fraction, is no tag value,
  and only the wording of an entry of \<open>removedFields\<close> would depend on it.
\<close>

function string_of_nat :: "nat \<Rightarrow> string" where
  "string_of_nat n =
     (if n < 10 then [char_of (48 + n)]
      else string_of_nat (n div 10) @ [char_of (48 + n mod 10)])"
  by pat_completeness auto
termination
  by (relation "measure (\<lambda>n. n)") auto

fun string_of_jsnum :: "jsnum \<Rightarrow> string" where
  "string_of_jsnum (Fin i) =
     (if i < 0 then ''-'' @ string_of_nat (nat (- i)) else string_of_nat (nat i))"
| "string_of_jsnum NaN = ''NaN''"
| "string_of_jsnum PosInf = ''Infinity''"
| "string_of_jsnum NegInf = ''-Infinity''"

fun join_comma :: "string list \<Rightarrow> string" where
  "join_comma [] = []"
| "join_comma [s] = s"
| "join_comma (s # t # ss) = s @ '','' @ join_comma (t # ss)"

text \<open>
  \<open>`${v}`\<close>: an array is joined with commas, and \<open>undefined\<close> or \<open>null\<close> inside an
  array prints as the empty string.
\<close>

fun js_to_string :: "jsval \<Rightarrow> string" where
  "js_to_string Undefined = ''undefined''"
| "js_to_string Null = ''null''"
| "js_to_string (Str s) = s"
| "js_to_string (Num n) = string_of_jsnum n"
| "js_to_string (Arr vs) =
     join_comma (map (\<lambda>v. if v = Undefined \<or> v = Null then [] else js_to_string v) vs)"

section \<open>Tag identifiers\<close>

text \<open>
  The numeric identifiers are those of the tables \<open>PRIVACY_TAGS\<close> and \<open>USEFUL_TAGS\<close>
  of the source. \<open>Copyright\<close>, \<open>Artist\<close>, \<open>DateTime\<close> and \<open>YCbCrPositioning\<close> are read
  from \<open>piexif.ImageIFD\<close> only; they carry the values of the EXIF standard, which is
  what piexifjs 1.0.6 defines. \<open>PixelXDimension\<close> and \<open>PixelYDimension\<close> are the
  library's names for \<open>ExifImageWidth\<close> and \<open>ExifImageHeight\<close>.
\<close>

definition Make :: nat where "Make = 0x010F"
definition Model :: nat where "Model = 0x0110"
definition Software :: nat where "Software = 0x0131"
definition HostComputer :: nat where "HostComputer = 0x013C"
definition MakerNote :: nat where "MakerNote = 0x927C"
definition UserComment :: nat where "UserComment = 0x9286"
definition ImageUniqueID :: nat where "ImageUniqueID = 0xA420"
definition CameraOwnerName :: nat where "CameraOwnerName = 0xA430"
definition BodySerialNumber :: nat where "BodySerialNumber = 0xA431"
definition LensSerialNumber :: nat where "LensSerialNumber = 0xA435"
definition LensMake :: nat where "LensMake = 0xA433"
definition LensModel :: nat where "LensModel = 0xA434"
definition XPAuthor :: nat where "XPAuthor = 0x9C9D"
definition XPComment :: nat where "XPComment = 0x9C9C"

definition Orientation :: nat where "Orientation = 0x0112"
definition XResolution :: nat where "XResolution = 0x011A"
definition YResolution :: nat where "YResolution = 0x011B"
definition ResolutionUnit :: nat where "ResolutionUnit = 0x0128"
definition YCbCrPositioning :: nat where "YCbCrPositioning = 0x0213"
definition Copyright :: nat where "Copyright = 0x8298"
definition Artist :: nat where "Artist = 0x013B"
definition DateTime :: nat where "DateTime = 0x0132"
definition DateTimeOriginal :: nat where "DateTimeOriginal = 0x9003"
definition ColorSpace :: nat where "ColorSpace = 0xA001"
definition PixelXDimension :: nat where "PixelXDimension = 0xA002"
definition PixelYDimension :: nat where "PixelYDimension = 0xA003"
definition OffsetTime :: nat where "OffsetTime = 36880"
definition OffsetTimeOriginal :: nat where "OffsetTimeOriginal = 36881"
definition OffsetTimeDigitized :: nat where "OffsetTimeDigitized = 36882"

text \<open>The tags that \<open>PRIVACY_TAGS\<close> lists as "to be deleted", with their group.\<close>

definition PRIVACY_TAGS_0th :: "nat list" where
  "PRIVACY_TAGS_0th = [Make, Model, Software, HostComputer, XPAuthor, XPComment]"


section \<open>Default configuration\<close>

definition DEFAULT_COPYRIGHT :: string where
  "DEFAULT_COPYRIGHT = ''Copyright (c) jixiaoyong. All Rights Reserved. jixiaoyong.github.io''"

definition DEFAULT_ARTIST :: string where
  "DEFAULT_ARTIST = ''jixiaoyong (jixiaoyong.github.io)''"

definition DEFAULT_OFFSET_TIME :: string where
  "DEFAULT_OFFSET_TIME = ''+00:00''"

text \<open>
  The default copyright of \<open>scripts/exif-cleaner.js\<close> is a different literal: it starts
  with the copyright sign and ends with a Chinese sentence. It is written here as its
  UTF-8 bytes.
\<close>

definition DEFAULT_COPYRIGHT_plain :: string where
  "DEFAULT_COPYRIGHT_plain =
     [CHR 0xC2, CHR 0xA9] @ '' jixiaoyong. All Rights Reserved. jixiaoyong.github.io / ''
     @ [CHR 0xE7, CHR 0x89, CHR 0x88, CHR 0xE6, CHR 0x9D, CHR 0x83, CHR 0xE6, CHR 0x89,
        CHR 0x80, CHR 0xE6, CHR 0x9C, CHR 0x89]
     @ '' jixiaoyong''
     @ [CHR 0xEF, CHR 0xBC, CHR 0x8C, CHR 0xE4, CHR 0xBF, CHR 0x9D, CHR 0xE7, CHR 0x95,
        CHR 0x99, CHR 0xE6, CHR 0x89, CHR 0x80, CHR 0xE6, CHR 0x9C, CHR 0x89, CHR 0xE6,
        CHR 0x9D, CHR 0x83, CHR 0xE5, CHR 0x88, CHR 0xA9, CHR 0xE3, CHR 0x80, CHR 0x82]"

record options =
  copyright :: "string option"
  artist :: "string option"
  offsetTime :: "string option"

section \<open>Helper functions\<close>

subsection \<open>formatExifDate\<close>

text \<open>
  What a \<open>throw\<close> carries: an \<open>Error\<close> object with its name and message, or a plain
  string.
\<close>

datatype exn = Exn string string | ThrownString string

text \<open>\<open>error.message || String(error)\<close>\<close>

fun error_text :: "exn \<Rightarrow> string" where
  "error_text (Exn ename msg) = (if msg \<noteq> [] then msg else ename)"
| "error_text (ThrownString s) = s"

definition is_digit :: "char \<Rightarrow> bool" where
  "is_digit c = (48 \<le> (of_char c :: nat) \<and> (of_char c :: nat) \<le> 57)"

text \<open>
  The regular expression \<open>/^(\d{4}):(\d{2}):(\d{2})/\<close>: the three groups when the
  string starts with four digits, a colon, two digits, a colon and two digits.
\<close>

fun match_date :: "string \<Rightarrow> (string \<times> string \<times> string) option" where
  "match_date (y1 # y2 # y3 # y4 # c1 # m1 # m2 # c2 # d1 # d2 # rest) =
     (if is_digit y1 \<and> is_digit y2 \<and> is_digit y3 \<and> is_digit y4 \<and> c1 = CHR '':''
         \<and> is_digit m1 \<and> is_digit m2 \<and> c2 = CHR '':'' \<and> is_digit d1 \<and> is_digit d2
      then Some ([y1, y2, y3, y4], [m1, m2], [d1, d2]) else None)"
| "match_date s = None"

text \<open>
  \<open>formatExifDate\<close> returns \<open>null\<close> for a falsy argument and for a string without the
  date prefix. A truthy argument that is not a string (a number or an array read from a
  tag stored with another type) has no \<open>match\<close> method, and the call raises a TypeError.
\<close>

fun formatExifDate :: "jsval \<Rightarrow> exn + string option" where
  "formatExifDate (Str s) =
     (if s = [] then Inr None
      else (case match_date s of
              Some (y, m, d) \<Rightarrow> Inr (Some (y @ '':'' @ m @ '':'' @ d @ '' 00:00:00''))
            | None \<Rightarrow> Inr None))"
| "formatExifDate v =
     (if \<not> truthy v then Inr None
      else Inl (Exn ''TypeError'' ''dateStr.match is not a function''))"

subsection \<open>Format detection\<close>

type_synonym bytes = "nat list"

record Blob =
  btype :: string
  bbytes :: bytes

record File =
  fname :: string
  ftype :: string
  fbytes :: bytes

text \<open>\<open>file.size\<close>, and a \<open>File\<close> used where a \<open>Blob\<close> is expected.\<close>

definition fsize :: "File \<Rightarrow> nat" where
  "fsize f = length (fbytes f)"

definition bsize :: "Blob \<Rightarrow> nat" where
  "bsize b = length (bbytes b)"

definition blob_of_file :: "File \<Rightarrow> Blob" where
  "blob_of_file f = \<lparr>btype = ftype f, bbytes = fbytes f\<rparr>"

text \<open>
  \<open>toLowerCase\<close> on the letters A to Z. No other character lowers to a letter of the
  four strings compared below, so the two tests are exact.
\<close>

definition lower_char :: "char \<Rightarrow> char" where
  "lower_char c =
     (if 65 \<le> (of_char c :: nat) \<and> (of_char c :: nat) \<le> 90
      then char_of ((of_char c :: nat) + 32) else c)"

definition toLowerCase :: "string \<Rightarrow> string" where
  "toLowerCase s = map lower_char s"

definition endsWith :: "string \<Rightarrow> string \<Rightarrow> bool" where
  "endsWith s suffix =
     (length suffix \<le> length s \<and> drop (length s - length suffix) s = suffix)"

definition isJpegFormat :: "File \<Rightarrow> bool" where
  "isJpegFormat f = (ftype f = ''image/jpeg'' \<or> ftype f = ''image/jpg'')"

definition isHeicFormat :: "File \<Rightarrow> bool" where
  "isHeicFormat f =
     (let type = toLowerCase (ftype f); name = toLowerCase (fname f)
      in type = ''image/heic'' \<or> type = ''image/heif''
         \<or> endsWith name ''.heic'' \<or> endsWith name ''.heif'')"

definition isSupportedFormat :: "File \<Rightarrow> bool" where
  "isSupportedFormat f = (isJpegFormat f \<or> isHeicFormat f)"

section \<open>The environment of the cleaner\<close>

text \<open>
  \<open>piexifjs\<close> is an external library. Its four operations are parameters of the model;
  each one either returns or raises. \<open>piexif.dump\<close> returns a binary string.
\<close>

type_synonym dataurl = string

record piexif =
  piexif_load :: "dataurl \<Rightarrow> exn + exifdoc"
  piexif_dump :: "exifdoc \<Rightarrow> exn + string"
  piexif_insert :: "string \<Rightarrow> dataurl \<Rightarrow> exn + dataurl"
  piexif_remove :: "dataurl \<Rightarrow> exn + dataurl"

text \<open>
  The rest of the browser: loading the library, decoding HEIC pixels through libheif and a
  canvas, the \<open>FileReader\<close>, the base64 decoding of \<open>dataURLToBlob\<close>, and the calendar
  date of \<open>new Date()\<close> (\<open>getMonth\<close> counts from 0).
\<close>

record env =
  loadPiexif :: "exn + piexif"
  convertHeicToJpeg :: "File \<Rightarrow> exn + dataurl"
  blobToDataURL :: "File \<Rightarrow> exn + dataurl"
  dataURLToBlob :: "dataurl \<Rightarrow> exn + Blob"
  now_getFullYear :: nat
  now_getMonth :: nat
  now_getDate :: nat

text \<open>
  The cleaner imports the library from a fixed address, version 1.0.6. The tag tables of
  that version have no entry for the three offset tags 36880, 36881 and 36882, and its
  \<open>dump\<close> raises on a document that holds a key missing from the tables. The predicate
  below says this of a library, for the key 36881; it is a property of the parameter, not
  a part of the cleaner.
\<close>

definition rejects_offset_tags :: "piexif \<Rightarrow> bool" where
  "rejects_offset_tags p =
     (\<forall>d. get_tag (exif d) OffsetTimeOriginal \<noteq> Undefined \<longrightarrow> (\<exists>e. piexif_dump p d = Inl e))"

section \<open>The result of a cleanup\<close>

record result =
  success :: bool
  "file" :: "File option"
  blob :: "Blob option"
  originalSize :: nat
  cleanedSize :: nat
  error :: "string option"
  removedFields :: "string list"
  addedFields :: "string list"
  convertedFrom :: "string option"

definition push_removed :: "result \<Rightarrow> string \<Rightarrow> result" where
  "push_removed r s = r\<lparr>removedFields := removedFields r @ [s]\<rparr>"

definition push_added :: "result \<Rightarrow> string \<Rightarrow> result" where
  "push_added r s = r\<lparr>addedFields := addedFields r @ [s]\<rparr>"

text \<open>The three notes that the source writes into \<open>result.error\<close>, as UTF-8 bytes.\<close>

definition NOTE_UNSUPPORTED_FORMAT :: string where
  "NOTE_UNSUPPORTED_FORMAT =
     [CHR 0xE4, CHR 0xB8, CHR 0x8D, CHR 0xE6, CHR 0x94, CHR 0xAF, CHR 0xE6, CHR 0x8C,
      CHR 0x81, CHR 0xE7, CHR 0x9A, CHR 0x84, CHR 0xE6, CHR 0xA0, CHR 0xBC, CHR 0xE5,
      CHR 0xBC, CHR 0x8F, CHR 0xEF, CHR 0xBC, CHR 0x8C, CHR 0xE8, CHR 0xB7, CHR 0xB3,
      CHR 0xE8, CHR 0xBF, CHR 0x87] @ '' EXIF ''
     @ [CHR 0xE5, CHR 0xA4, CHR 0x84, CHR 0xE7, CHR 0x90, CHR 0x86]"

definition NOTE_CANNOT_PARSE :: string where
  "NOTE_CANNOT_PARSE =
     [CHR 0xE6, CHR 0x97, CHR 0xA0, CHR 0xE6, CHR 0xB3, CHR 0x95, CHR 0xE8, CHR 0xA7,
      CHR 0xA3, CHR 0xE6, CHR 0x9E, CHR 0x90] @ '' EXIF ''
     @ [CHR 0xE6, CHR 0x95, CHR 0xB0, CHR 0xE6, CHR 0x8D, CHR 0xAE, CHR 0xEF, CHR 0xBC,
        CHR 0x8C, CHR 0xE8, CHR 0xBF, CHR 0x94, CHR 0xE5, CHR 0x9B, CHR 0x9E, CHR 0xE5,
        CHR 0x8E, CHR 0x9F, CHR 0xE6, CHR 0x96, CHR 0x87, CHR 0xE4, CHR 0xBB, CHR 0xB6]"

definition NOTE_PROCESSING_FAILED :: string where
  "NOTE_PROCESSING_FAILED =
     ''EXIF ''
     @ [CHR 0xE5, CHR 0xA4, CHR 0x84, CHR 0xE7, CHR 0x90, CHR 0x86, CHR 0xE5, CHR 0xBC,
        CHR 0x82, CHR 0xE5, CHR 0xB8, CHR 0xB8, CHR 0xEF, CHR 0xBC, CHR 0x8C, CHR 0xE8,
        CHR 0xBF, CHR 0x94, CHR 0xE5, CHR 0x9B, CHR 0x9E, CHR 0xE5, CHR 0x8E, CHR 0x9F,
        CHR 0xE6, CHR 0x96, CHR 0x87, CHR 0xE4, CHR 0xBB, CHR 0xB6] @ '': ''"

text \<open>\<open>`${dumpError.message}`\<close>\<close>

fun exn_message :: "exn \<Rightarrow> string" where
  "exn_message (Exn ename msg) = msg"
| "exn_message (ThrownString s) = ''undefined''"

text \<open>
  The outer \<open>catch\<close> of \<open>cleanupExifFromFile\<close>. It receives the result object as the
  code has filled it so far: \<open>success\<close> is still \<open>false\<close>, and the entries pushed to
  \<open>removedFields\<close> and \<open>addedFields\<close> before the exception stay where they are.
\<close>

definition catch_handler :: "File \<Rightarrow> result \<Rightarrow> exn \<Rightarrow> result" where
  "catch_handler f r e =
     r\<lparr>error := Some (error_text e), file := Some f, blob := Some (blob_of_file f),
       cleanedSize := fsize f\<rparr>"

text \<open>The three places that return the input file with \<open>success = true\<close> and a note.\<close>

definition return_original :: "File \<Rightarrow> result \<Rightarrow> string \<Rightarrow> result" where
  "return_original f r note =
     r\<lparr>success := True, file := Some f, blob := Some (blob_of_file f),
       cleanedSize := fsize f, error := Some note\<rparr>"

section \<open>Redaction of the decoded document\<close>

text \<open>Step 1: the GPS group is dropped as a whole.\<close>

definition remove_gps :: "exifdoc \<times> result \<Rightarrow> exifdoc \<times> result" where
  "remove_gps = (\<lambda>(d, r).
     if gps d \<noteq> [] then (d\<lparr>gps := []\<rparr>, push_removed r ''GPS (entire block)'')
     else (d, r))"

text \<open>
  The pattern of steps 2 and 3:
  \<open>if (ifd[K] !== undefined) { result.removedFields.push(label); delete ifd[K]; }\<close>
\<close>

definition remove_reported :: "nat \<Rightarrow> (jsval \<Rightarrow> string) \<Rightarrow> ifd \<times> result \<Rightarrow> ifd \<times> result" where
  "remove_reported k label = (\<lambda>(obj, r).
     if get_tag obj k \<noteq> Undefined
     then (delete_tag obj k, push_removed r (label (get_tag obj k)))
     else (obj, r))"

definition remove_device_info :: "ifd \<times> result \<Rightarrow> ifd \<times> result" where
  "remove_device_info s0 =
     (let s1 = remove_reported Make (\<lambda>v. ''Make: '' @ js_to_string v) s0;
          s2 = remove_reported Model (\<lambda>v. ''Model: '' @ js_to_string v) s1;
          s3 = remove_reported Software (\<lambda>v. ''Software: '' @ js_to_string v) s2;
          s4 = remove_reported HostComputer (\<lambda>v. ''HostComputer: '' @ js_to_string v) s3
      in s4)"

definition remove_exif_privacy :: "ifd \<times> result \<Rightarrow> ifd \<times> result" where
  "remove_exif_privacy s0 =
     (let s1 = remove_reported MakerNote (\<lambda>v. ''MakerNote (Apple privacy data)'') s0;
          s2 = remove_reported UserComment (\<lambda>v. ''UserComment'') s1;
          s3 = remove_reported ImageUniqueID (\<lambda>v. ''ImageUniqueID: '' @ js_to_string v) s2;
          s4 = remove_reported CameraOwnerName (\<lambda>v. ''CameraOwnerName: '' @ js_to_string v) s3;
          s5 = remove_reported BodySerialNumber (\<lambda>v. ''BodySerialNumber'') s4;
          s6 = remove_reported LensMake (\<lambda>v. ''LensMake: '' @ js_to_string v) s5;
          s7 = remove_reported LensModel (\<lambda>v. ''LensModel: '' @ js_to_string v) s6;
          s8 = remove_reported LensSerialNumber (\<lambda>v. ''LensSerialNumber'') s7
      in s8)"

text \<open>Step 4: the thumbnail group and the thumbnail image.\<close>

definition remove_thumbnail :: "exifdoc \<times> result \<Rightarrow> exifdoc \<times> result" where
  "remove_thumbnail = (\<lambda>(d, r).
     let (d1, r1) = (if first d \<noteq> [] then (d\<lparr>first := []\<rparr>, push_removed r ''Thumbnail'')
                     else (d, r));
         d2 = (if truthy (thumbnail d1) then d1\<lparr>thumbnail := Undefined\<rparr> else d1)
     in (d2, r1))"

text \<open>Step 5: copyright and artist are written over whatever was there.\<close>

definition add_copyright :: "string \<Rightarrow> string \<Rightarrow> ifd \<times> result \<Rightarrow> ifd \<times> result" where
  "add_copyright copyright_s artist_s = (\<lambda>(ifd0, r).
     let ifd0a = set_tag ifd0 Copyright (Str copyright_s);
         r1 = push_added r (''Copyright: '' @ copyright_s);
         ifd0b = set_tag ifd0a Artist (Str artist_s);
         r2 = push_added r1 (''Artist: '' @ artist_s)
     in (ifd0b, r2))"

text \<open>
  Steps 1 to 5 in the order of the source. \<open>ifd0\<close> and \<open>exifIfd\<close> are aliases of
  \<open>exifObj['0th']\<close> and \<open>exifObj['Exif']\<close>, so the deletions and assignments change the
  document itself.
\<close>

definition remove_privacy :: "string \<Rightarrow> string \<Rightarrow> exifdoc \<Rightarrow> result \<Rightarrow> exifdoc \<times> result" where
  "remove_privacy copyright_s artist_s exifObj r0 =
     (let (d1, r1) = remove_gps (exifObj, r0);
          (ifd0a, r2) = remove_device_info (zeroth d1, r1);
          (exifIfd, r3) = remove_exif_privacy (exif d1, r2);
          (d4, r4) = remove_thumbnail (d1\<lparr>zeroth := ifd0a, exif := exifIfd\<rparr>, r3);
          (ifd0b, r5) = add_copyright copyright_s artist_s (zeroth d4, r4)
      in (d4\<lparr>zeroth := ifd0b\<rparr>, r5))"

text \<open>
  Step 6: the time of day is cleared, the three offset tags are set. A date value that
  \<open>formatExifDate\<close> cannot match is left as it is. The exception of \<open>formatExifDate\<close>
  leaves the function with the result object as it is at that point.
\<close>

definition rewrite_DateTimeOriginal :: "ifd \<times> result \<Rightarrow> (exn \<times> result) + (ifd \<times> result)" where
  "rewrite_DateTimeOriginal = (\<lambda>(exifIfd, r).
     let dateTimeOriginal = get_tag exifIfd DateTimeOriginal
     in if truthy dateTimeOriginal
        then (case formatExifDate dateTimeOriginal of
                Inl e \<Rightarrow> Inl (e, r)
              | Inr None \<Rightarrow> Inr (exifIfd, r)
              | Inr (Some cleanedDate) \<Rightarrow>
                  Inr (set_tag exifIfd DateTimeOriginal (Str cleanedDate),
                       push_added r (''DateTimeOriginal: '' @ cleanedDate)))
        else Inr (exifIfd, r))"

definition set_offset_times :: "string \<Rightarrow> ifd \<times> result \<Rightarrow> ifd \<times> result" where
  "set_offset_times offsetTime_s = (\<lambda>(exifIfd, r).
     let exifIfd1 = set_tag exifIfd OffsetTimeOriginal (Str offsetTime_s);
         r1 = push_added r (''OffsetTimeOriginal: '' @ offsetTime_s);
         exifIfd2 = set_tag exifIfd1 OffsetTimeDigitized (Str offsetTime_s);
         exifIfd3 = set_tag exifIfd2 OffsetTime (Str offsetTime_s)
     in (exifIfd3, r1))"

definition rewrite_DateTime :: "ifd \<Rightarrow> exn + ifd" where
  "rewrite_DateTime ifd0 =
     (let dateTime = get_tag ifd0 DateTime
      in if truthy dateTime
         then (case formatExifDate dateTime of
                 Inl e \<Rightarrow> Inl e
               | Inr None \<Rightarrow> Inr ifd0
               | Inr (Some cleanedDate) \<Rightarrow> Inr (set_tag ifd0 DateTime (Str cleanedDate)))
         else Inr ifd0)"

definition rewrite_dates ::
  "string \<Rightarrow> exifdoc \<times> result \<Rightarrow> (exn \<times> result) + (exifdoc \<times> result)" where
  "rewrite_dates offsetTime_s = (\<lambda>(d, r).
     case rewrite_DateTimeOriginal (exif d, r) of
       Inl x \<Rightarrow> Inl x
     | Inr s1 \<Rightarrow>
         (let (exifIfd, r2) = set_offset_times offsetTime_s s1
          in (case rewrite_DateTime (zeroth d) of
                Inl e \<Rightarrow> Inl (e, r2)
              | Inr ifd0 \<Rightarrow> Inr (d\<lparr>zeroth := ifd0, exif := exifIfd\<rparr>, r2))))"

text \<open>
  Steps 1 to 6. Both versions of the cleaner (\<open>scripts/exif-cleaner.js\<close> and the version
  with the fallback chain) contain these lines word for word.
\<close>

definition redact ::
  "string \<Rightarrow> string \<Rightarrow> string \<Rightarrow> exifdoc \<Rightarrow> result \<Rightarrow> (exn \<times> result) + (exifdoc \<times> result)" where
  "redact copyright_s artist_s offsetTime_s exifObj r0 =
     rewrite_dates offsetTime_s (remove_privacy copyright_s artist_s exifObj r0)"

section \<open>Cleaning a group before serialisation\<close>

text \<open>
  \<open>typeof v === 'number' && (Number.isNaN(v) || !Number.isFinite(v))\<close>
\<close>

fun invalid_number :: "jsval \<Rightarrow> bool" where
  "invalid_number (Num (Fin i)) = False"
| "invalid_number (Num n) = True"
| "invalid_number v = False"

text \<open>The values that \<open>cleanExifIfd\<close> skips under a key that is not preserved.\<close>

fun skipped_value :: "jsval \<Rightarrow> bool" where
  "skipped_value Undefined = True"
| "skipped_value Null = True"
| "skipped_value (Arr vs) =
     (vs = [] \<or> list_ex (\<lambda>v. v = Undefined \<or> v = Null \<or> invalid_number v) vs)"
| "skipped_value v = invalid_number v"

text \<open>
  The loop of \<open>cleanExifIfd\<close> over \<open>Object.entries(ifd)\<close>, with the object
  \<open>cleaned\<close> as accumulator. The keys of the entries are the strings of the tag ids, so
  \<open>preserveKeys.includes(key) || preserveKeys.includes(Number(key))\<close> is membership of
  the tag id.
\<close>

fun cleanExifIfd_loop :: "(nat \<times> jsval) list \<Rightarrow> nat list \<Rightarrow> ifd \<Rightarrow> ifd" where
  "cleanExifIfd_loop [] preserveKeys cleaned = cleaned"
| "cleanExifIfd_loop ((key, v) # entries) preserveKeys cleaned =
     (if key \<in> set preserveKeys
      then cleanExifIfd_loop entries preserveKeys
             (if v \<noteq> Undefined \<and> v \<noteq> Null then set_tag cleaned key v else cleaned)
      else if skipped_value v then cleanExifIfd_loop entries preserveKeys cleaned
      else cleanExifIfd_loop entries preserveKeys (set_tag cleaned key v))"

definition cleanExifIfd :: "ifd \<Rightarrow> nat list \<Rightarrow> ifd" where
  "cleanExifIfd obj preserveKeys = cleanExifIfd_loop obj preserveKeys []"

definition ifd0PreserveKeys :: "nat list" where
  "ifd0PreserveKeys = [Orientation, XResolution, YResolution, ResolutionUnit, YCbCrPositioning]"

definition exifPreserveKeys :: "nat list" where
  "exifPreserveKeys = [ColorSpace, PixelXDimension, PixelYDimension]"

text \<open>
  The document of tier 1: every group cleaned, then the orientation that was read from
  the decoded \<open>0th\<close> group before any change is written back.
\<close>

definition tier1_document :: "exifdoc \<Rightarrow> jsval \<Rightarrow> exifdoc" where
  "tier1_document d originalOrientation =
     (let c = d\<lparr>zeroth := cleanExifIfd (zeroth d) ifd0PreserveKeys,
                exif := cleanExifIfd (exif d) exifPreserveKeys,
                gps := cleanExifIfd (gps d) [],
                first := cleanExifIfd (first d) [],
                interop := cleanExifIfd (interop d) []\<rparr>
      in if originalOrientation \<noteq> Undefined \<and> originalOrientation \<noteq> Null
         then c\<lparr>zeroth := set_tag (zeroth c) Orientation originalOrientation\<rparr>
         else c)"

section \<open>The fallback chain\<close>

definition empty_document :: exifdoc where
  "empty_document =
     \<lparr>zeroth = [], exif = [], gps = [], first = [], interop = [], thumbnail = Undefined\<rparr>"

text \<open>\<open>if (v !== undefined) obj[k] = v\<close> and \<open>if (v) obj[k] = v\<close>.\<close>

definition set_if_defined :: "ifd \<Rightarrow> nat \<Rightarrow> jsval \<Rightarrow> ifd" where
  "set_if_defined obj k v = (if v \<noteq> Undefined then set_tag obj k v else obj)"

definition set_if_truthy :: "ifd \<Rightarrow> nat \<Rightarrow> jsval \<Rightarrow> ifd" where
  "set_if_truthy obj k v = (if truthy v then set_tag obj k v else obj)"

text \<open>
  Tier 2 reads \<open>ifd0\<close> and \<open>exifIfd\<close>: these variables still point to the redacted
  groups as they were before \<open>cleanExifIfd\<close> replaced the groups of \<open>exifObj\<close>.
\<close>

definition minimalExif :: "ifd \<Rightarrow> ifd \<Rightarrow> string \<Rightarrow> string \<Rightarrow> string \<Rightarrow> exifdoc" where
  "minimalExif ifd0 exifIfd copyright_s artist_s offsetTime_s =
     (let z1 = set_if_defined [] Orientation (get_tag ifd0 Orientation);
          z2 = set_if_defined z1 XResolution (get_tag ifd0 XResolution);
          z3 = set_if_defined z2 YResolution (get_tag ifd0 YResolution);
          z4 = set_if_defined z3 ResolutionUnit (get_tag ifd0 ResolutionUnit);
          z5 = set_if_defined z4 YCbCrPositioning (get_tag ifd0 YCbCrPositioning);
          z6 = set_tag z5 Copyright (Str copyright_s);
          z7 = set_tag z6 Artist (Str artist_s);
          z8 = set_if_truthy z7 DateTime (get_tag ifd0 DateTime);
          e1 = set_if_defined [] ColorSpace (get_tag exifIfd ColorSpace);
          e2 = set_if_defined e1 PixelXDimension (get_tag exifIfd PixelXDimension);
          e3 = set_if_defined e2 PixelYDimension (get_tag exifIfd PixelYDimension);
          e4 = set_if_truthy e3 DateTimeOriginal (get_tag exifIfd DateTimeOriginal);
          e5 = set_tag e4 OffsetTimeOriginal (Str offsetTime_s);
          e6 = set_tag e5 OffsetTimeDigitized (Str offsetTime_s);
          e7 = set_tag e6 OffsetTime (Str offsetTime_s)
      in empty_document\<lparr>zeroth := z8, exif := e7\<rparr>)"

definition safeExif :: "string \<Rightarrow> string \<Rightarrow> jsval \<Rightarrow> exifdoc" where
  "safeExif copyright_s artist_s originalOrientation =
     (let z1 = set_tag [] Copyright (Str copyright_s);
          z2 = set_tag z1 Artist (Str artist_s);
          z3 = (if originalOrientation \<noteq> Undefined \<and> originalOrientation \<noteq> Null
                then set_tag z2 Orientation originalOrientation else z2)
      in empty_document\<lparr>zeroth := z3\<rparr>)"

text \<open>\<open>piexif.insert(piexif.dump(doc), url)\<close>: either call may raise.\<close>

definition encode :: "piexif \<Rightarrow> exifdoc \<Rightarrow> dataurl \<Rightarrow> exn + dataurl" where
  "encode p doc url =
     (case piexif_dump p doc of Inl e \<Rightarrow> Inl e | Inr exifBytes \<Rightarrow> piexif_insert p exifBytes url)"

text \<open>
  What the nested \<open>try\<close> blocks leave behind: the tier that assigned \<open>newDataURL\<close>
  together with the document it serialised, the bare strip of tier 4, or the error of the
  first dump when the last \<open>catch\<close> is reached.
\<close>

datatype tier = Tier1 | Tier2 | Tier3

datatype chain_result =
  Written tier exifdoc dataurl
| BareStripped dataurl
| Exhausted exn

definition strip_and_rebuild :: "piexif \<Rightarrow> dataurl \<Rightarrow> exifdoc \<Rightarrow> exn + dataurl" where
  "strip_and_rebuild p url safe =
     (case piexif_remove p url of Inl e \<Rightarrow> Inl e | Inr strippedDataURL \<Rightarrow> encode p safe strippedDataURL)"

definition bare_strip :: "piexif \<Rightarrow> dataurl \<Rightarrow> exn \<Rightarrow> result \<Rightarrow> chain_result \<times> result" where
  "bare_strip p url dumpError r =
     (case piexif_remove p url of
        Inr newDataURL \<Rightarrow>
          (BareStripped newDataURL,
           push_removed r ''All EXIF completely stripped (no new EXIF added)'')
      | Inl bareStripErr \<Rightarrow> (Exhausted dumpError, r))"

definition safe_tier ::
  "piexif \<Rightarrow> dataurl \<Rightarrow> exifdoc \<Rightarrow> exn \<Rightarrow> result \<Rightarrow> chain_result \<times> result" where
  "safe_tier p url safe dumpError r =
     (case strip_and_rebuild p url safe of
        Inr newDataURL \<Rightarrow>
          (Written Tier3 safe newDataURL,
           push_removed r
             ''All EXIF stripped and rebuilt with minimal safe values (Orientation preserved)'')
      | Inl stripErr \<Rightarrow> bare_strip p url dumpError r)"

definition minimal_tier ::
  "piexif \<Rightarrow> dataurl \<Rightarrow> exifdoc \<Rightarrow> exifdoc \<Rightarrow> exn \<Rightarrow> result \<Rightarrow> chain_result \<times> result" where
  "minimal_tier p url minimal safe dumpError r =
     (case encode p minimal url of
        Inr newDataURL \<Rightarrow>
          (Written Tier2 minimal newDataURL,
           push_removed r
             ''Some EXIF tags could not be preserved (display-related tags kept)'')
      | Inl minimalErr \<Rightarrow> safe_tier p url safe dumpError r)"

definition fallback_chain ::
  "piexif \<Rightarrow> dataurl \<Rightarrow> exifdoc \<Rightarrow> exifdoc \<Rightarrow> exifdoc \<Rightarrow> result \<Rightarrow> chain_result \<times> result" where
  "fallback_chain p url full minimal safe r =
     (case encode p full url of
        Inr newDataURL \<Rightarrow> (Written Tier1 full newDataURL, r)
      | Inl dumpError \<Rightarrow> minimal_tier p url minimal safe dumpError r)"

section \<open>cleanupExifFromFile\<close>

text \<open>The end of the JPEG path: \<open>dataURLToBlob\<close>, then a new \<open>File\<close> around the blob.\<close>

definition finish :: "env \<Rightarrow> File \<Rightarrow> dataurl \<Rightarrow> result \<Rightarrow> result" where
  "finish ev f newDataURL r =
     (case dataURLToBlob ev newDataURL of
        Inl e \<Rightarrow> catch_handler f r e
      | Inr cleanedBlob \<Rightarrow>
          r\<lparr>success := True,
            file := Some \<lparr>fname = fname f, ftype = ftype f, fbytes = bbytes cleanedBlob\<rparr>,
            blob := Some cleanedBlob,
            cleanedSize := bsize cleanedBlob\<rparr>)"

text \<open>
  The JPEG path after a successful \<open>piexif.load\<close>, up to the point where
  \<open>newDataURL\<close> is known: the orientation is read, the document is redacted, and the
  fallback chain runs. The three reads of the orientation
  (\<open>ifd0[piexif.ImageIFD.Orientation]\<close>, \<open>ifd0[274]\<close>, \<open>ifd0['274']\<close>) read the same
  property, before anything is changed.
\<close>

definition redact_and_encode ::
  "piexif \<Rightarrow> dataurl \<Rightarrow> exifdoc \<Rightarrow> string \<Rightarrow> string \<Rightarrow> string \<Rightarrow> result
     \<Rightarrow> (exn \<times> result) + (chain_result \<times> result)" where
  "redact_and_encode p dataURL exifObj copyright_s artist_s offsetTime_s r0 =
     (let originalOrientation = get_tag (zeroth exifObj) Orientation
      in case redact copyright_s artist_s offsetTime_s exifObj r0 of
           Inl x \<Rightarrow> Inl x
         | Inr (d, r) \<Rightarrow>
             Inr (fallback_chain p dataURL
                    (tier1_document d originalOrientation)
                    (minimalExif (zeroth d) (exif d) copyright_s artist_s offsetTime_s)
                    (safeExif copyright_s artist_s originalOrientation) r))"

definition jpeg_path ::
  "env \<Rightarrow> piexif \<Rightarrow> dataurl \<Rightarrow> exifdoc \<Rightarrow> File \<Rightarrow> string \<Rightarrow> string \<Rightarrow> string \<Rightarrow> result \<Rightarrow> result" where
  "jpeg_path ev p dataURL exifObj f copyright_s artist_s offsetTime_s r0 =
     (case redact_and_encode p dataURL exifObj copyright_s artist_s offsetTime_s r0 of
        Inl (e, r) \<Rightarrow> catch_handler f r e
      | Inr (Written t doc newDataURL, r1) \<Rightarrow> finish ev f newDataURL r1
      | Inr (BareStripped newDataURL, r1) \<Rightarrow> finish ev f newDataURL r1
      | Inr (Exhausted dumpError, r1) \<Rightarrow>
          return_original f r1 (NOTE_PROCESSING_FAILED @ exn_message dumpError))"

text \<open>
  The tag directory that the chain has put into the output: the document of the tier
  that wrote it. After the bare strip of tier 4 the output has no tag directory, and
  when the chain is exhausted or never reached nothing was written.
\<close>

definition output_document :: "(exn \<times> result) + (chain_result \<times> result) \<Rightarrow> exifdoc option" where
  "output_document x = (case x of Inr (Written t doc u, r) \<Rightarrow> Some doc | _ \<Rightarrow> None)"

definition output_tag ::
  "(exn \<times> result) + (chain_result \<times> result) \<Rightarrow> (exifdoc \<Rightarrow> ifd) \<Rightarrow> nat \<Rightarrow> jsval" where
  "output_tag x grp k =
     (case output_document x of Some doc \<Rightarrow> get_tag (grp doc) k | None \<Rightarrow> Undefined)"


text \<open>
  A decoded group is an object: every key occurs once. Its values are valid when
  \<open>cleanExifIfd\<close> would skip none of them.
\<close>

definition wellformed_document :: "exifdoc \<Rightarrow> bool" where
  "wellformed_document d =
     (distinct (map fst (zeroth d)) \<and> distinct (map fst (exif d)) \<and> distinct (map fst (gps d))
      \<and> distinct (map fst (first d)) \<and> distinct (map fst (interop d)))"



subsection \<open>The HEIC path\<close>

definition padStart2 :: "string \<Rightarrow> string" where
  "padStart2 s = replicate (2 - length s) (CHR ''0'') @ s"

definition heic_dateStr :: "env \<Rightarrow> string" where
  "heic_dateStr ev =
     string_of_nat (now_getFullYear ev) @ '':''
     @ padStart2 (string_of_nat (now_getMonth ev + 1)) @ '':''
     @ padStart2 (string_of_nat (now_getDate ev)) @ '' 00:00:00''"

definition heic_document :: "string \<Rightarrow> string \<Rightarrow> string \<Rightarrow> string \<Rightarrow> exifdoc" where
  "heic_document copyright_s artist_s dateStr offsetTime_s =
     (let z1 = set_tag [] Copyright (Str copyright_s);
          z2 = set_tag z1 Artist (Str artist_s);
          e1 = set_tag [] DateTimeOriginal (Str dateStr);
          z3 = set_tag z2 DateTime (Str dateStr);
          e2 = set_tag e1 OffsetTimeOriginal (Str offsetTime_s);
          e3 = set_tag e2 OffsetTimeDigitized (Str offsetTime_s);
          e4 = set_tag e3 OffsetTime (Str offsetTime_s)
      in empty_document\<lparr>zeroth := z3, exif := e4\<rparr>)"

text \<open>\<open>file.name.replace(/\.(heic|heif)$/i, '.jpg')\<close>\<close>

definition heic_new_name :: "string \<Rightarrow> string" where
  "heic_new_name n =
     (if endsWith (toLowerCase n) ''.heic'' \<or> endsWith (toLowerCase n) ''.heif''
      then take (length n - 5) n @ ''.jpg'' else n)"

definition heic_path :: "env \<Rightarrow> File \<Rightarrow> string \<Rightarrow> string \<Rightarrow> string \<Rightarrow> result \<Rightarrow> result" where
  "heic_path ev f copyright_s artist_s offsetTime_s r0 =
     (let r1 = push_removed r0 ''HEIC/HEIF converted to JPEG (all original metadata removed)''
      in case convertHeicToJpeg ev f of
           Inl e \<Rightarrow> catch_handler f r1 e
         | Inr dataURL \<Rightarrow>
             (case loadPiexif ev of
                Inl e \<Rightarrow> catch_handler f r1 e
              | Inr p \<Rightarrow>
                  (let dateStr = heic_dateStr ev;
                       exifObj = heic_document copyright_s artist_s dateStr offsetTime_s;
                       r2 = push_added r1 (''Copyright: '' @ copyright_s);
                       r3 = push_added r2 (''Artist: '' @ artist_s);
                       r4 = push_added r3 (''DateTimeOriginal: '' @ dateStr);
                       r5 = push_added r4 (''OffsetTimeOriginal: '' @ offsetTime_s)
                   in case encode p exifObj dataURL of
                        Inl e \<Rightarrow> catch_handler f r5 e
                      | Inr newDataURL \<Rightarrow>
                          (case dataURLToBlob ev newDataURL of
                             Inl e \<Rightarrow> catch_handler f r5 e
                           | Inr cleanedBlob \<Rightarrow>
                               r5\<lparr>success := True,
                                  file := Some \<lparr>fname = heic_new_name (fname f),
                                                ftype = ''image/jpeg'',
                                                fbytes = bbytes cleanedBlob\<rparr>,
                                  blob := Some cleanedBlob,
                                  cleanedSize := bsize cleanedBlob,
                                  convertedFrom := Some ''HEIC/HEIF''\<rparr>))))"

subsection \<open>The whole function\<close>

definition initial_result :: "File \<Rightarrow> result" where
  "initial_result f =
     \<lparr>success = False, file = None, blob = None, originalSize = fsize f, cleanedSize = 0,
      error = None, removedFields = [], addedFields = [], convertedFrom = None\<rparr>"

definition option_or :: "'a option \<Rightarrow> 'a \<Rightarrow> 'a" where
  "option_or x d = (case x of None \<Rightarrow> d | Some v \<Rightarrow> v)"

definition cleanupExifFromFile :: "env \<Rightarrow> File \<Rightarrow> options \<Rightarrow> result" where
  "cleanupExifFromFile ev f opts =
     (let copyright_s = option_or (copyright opts) DEFAULT_COPYRIGHT;
          artist_s = option_or (artist opts) DEFAULT_ARTIST;
          offsetTime_s = option_or (offsetTime opts) DEFAULT_OFFSET_TIME;
          r0 = initial_result f
      in if isHeicFormat f then heic_path ev f copyright_s artist_s offsetTime_s r0
         else if \<not> isJpegFormat f then return_original f r0 NOTE_UNSUPPORTED_FORMAT
         else (case loadPiexif ev of
                 Inl e \<Rightarrow> catch_handler f r0 e
               | Inr p \<Rightarrow>
                   (case blobToDataURL ev f of
                      Inl e \<Rightarrow> catch_handler f r0 e
                    | Inr dataURL \<Rightarrow>
                        (case piexif_load p dataURL of
                           Inl e \<Rightarrow> return_original f r0 NOTE_CANNOT_PARSE
                         | Inr exifObj \<Rightarrow>
                             jpeg_path ev p dataURL exifObj f
                               copyright_s artist_s offsetTime_s r0))))"

subsection \<open>The version without the fallback chain\<close>

text \<open>
  \<open>scripts/exif-cleaner.js\<close>: the same function up to step 6, then a single
  \<open>piexif.dump\<close> and \<open>piexif.insert\<close> on the redacted document, whose exception
  goes to the outer \<open>catch\<close>. \<open>redact_and_encode_plain\<close> returns the document that was
  serialised together with the new data URL.
\<close>

definition redact_and_encode_plain ::
  "piexif \<Rightarrow> dataurl \<Rightarrow> exifdoc \<Rightarrow> string \<Rightarrow> string \<Rightarrow> string \<Rightarrow> result
     \<Rightarrow> (exn \<times> result) + ((exifdoc \<times> dataurl) \<times> result)" where
  "redact_and_encode_plain p dataURL exifObj copyright_s artist_s offsetTime_s r0 =
     (case redact copyright_s artist_s offsetTime_s exifObj r0 of
        Inl x \<Rightarrow> Inl x
      | Inr (d, r) \<Rightarrow>
          (case encode p d dataURL of
             Inl e \<Rightarrow> Inl (e, r)
           | Inr newDataURL \<Rightarrow> Inr ((d, newDataURL), r)))"

definition jpeg_path_plain ::
  "env \<Rightarrow> piexif \<Rightarrow> dataurl \<Rightarrow> exifdoc \<Rightarrow> File \<Rightarrow> string \<Rightarrow> string \<Rightarrow> string \<Rightarrow> result \<Rightarrow> result" where
  "jpeg_path_plain ev p dataURL exifObj f copyright_s artist_s offsetTime_s r0 =
     (case redact_and_encode_plain p dataURL exifObj copyright_s artist_s offsetTime_s r0 of
        Inl (e, r) \<Rightarrow> catch_handler f r e
      | Inr ((doc, newDataURL), r) \<Rightarrow> finish ev f newDataURL r)"

definition cleanupExifFromFile_plain :: "env \<Rightarrow> File \<Rightarrow> options \<Rightarrow> result" where
  "cleanupExifFromFile_plain ev f opts =
     (let copyright_s = option_or (copyright opts) DEFAULT_COPYRIGHT_plain;
          artist_s = option_or (artist opts) DEFAULT_ARTIST;
          offsetTime_s = option_or (offsetTime opts) DEFAULT_OFFSET_TIME;
          r0 = initial_result f
      in if isHeicFormat f then heic_path ev f copyright_s artist_s offsetTime_s r0
         else if \<not> isJpegFormat f then return_original f r0 NOTE_UNSUPPORTED_FORMAT
         else (case loadPiexif ev of
                 Inl e \<Rightarrow> catch_handler f r0 e
               | Inr p \<Rightarrow>
                   (case blobToDataURL ev f of
                      Inl e \<Rightarrow> catch_handler f r0 e
                    | Inr dataURL \<Rightarrow>
                        (case piexif_load p dataURL of
                           Inl e \<Rightarrow> return_original f r0 NOTE_CANNOT_PARSE
                         | Inr exifObj \<Rightarrow>
                             jpeg_path_plain ev p dataURL exifObj f
                               copyright_s artist_s offsetTime_s r0))))"

section \<open>cleanupExifBatch\<close>

record batch_result =
  results :: "result list"
  batch_success :: nat
  failed :: nat
  totalOriginalSize :: nat
  totalCleanedSize :: nat

text \<open>
  The calls that the loop makes, in the order in which it makes them: the progress
  callback with its three arguments, and \<open>cleanupExifFromFile\<close> with the file.
\<close>

datatype event = OnProgress nat nat File | CleanupCall File

text \<open>
  The \<open>for\<close> loop, by recursion on the files from index \<open>i\<close> on. \<open>onProgress\<close> says
  whether the caller passed a callback.
\<close>

fun batch_loop ::
  "env \<Rightarrow> options \<Rightarrow> bool \<Rightarrow> nat \<Rightarrow> nat \<Rightarrow> File list \<Rightarrow> batch_result \<times> event list
     \<Rightarrow> batch_result \<times> event list" where
  "batch_loop ev opts onProgress files_length i [] st = st"
| "batch_loop ev opts onProgress files_length i (f # rest) (b, log) =
     (let log1 = (if onProgress then log @ [OnProgress (i + 1) files_length f] else log);
          r = cleanupExifFromFile ev f opts;
          log2 = log1 @ [CleanupCall f];
          b1 = b\<lparr>results := results b @ [r],
                 totalOriginalSize := totalOriginalSize b + originalSize r,
                 totalCleanedSize := totalCleanedSize b + cleanedSize r\<rparr>;
          b2 = (if success r then b1\<lparr>batch_success := batch_success b1 + 1\<rparr>
                else b1\<lparr>failed := failed b1 + 1\<rparr>)
      in batch_loop ev opts onProgress files_length (i + 1) rest (b2, log2))"

definition cleanupExifBatch ::
  "env \<Rightarrow> File list \<Rightarrow> options \<Rightarrow> bool \<Rightarrow> batch_result \<times> event list" where
  "cleanupExifBatch ev files opts onProgress =
     batch_loop ev opts onProgress (length files) 0 files
       (\<lparr>results = [], batch_success = 0, failed = 0, totalOriginalSize = 0,
         totalCleanedSize = 0\<rparr>, [])"

section \<open>What the steps do to the result object\<close>

text \<open>
  Between its creation and the final assignments the result object is only touched by
  \<open>removedFields.push\<close> and \<open>addedFields.push\<close>. The relation below holds between a
  result and a later state of it when \<open>success\<close> and \<open>originalSize\<close> are unchanged
  and the entry of step 1, "GPS (entire block)", was neither added nor lost.
\<close>

definition report_only :: "result \<Rightarrow> result \<Rightarrow> bool" where
  "report_only r r' =
     (success r' = success r \<and> originalSize r' = originalSize r
      \<and> (''GPS (entire block)'' \<in> set (removedFields r')
           \<longleftrightarrow> ''GPS (entire block)'' \<in> set (removedFields r)))"

section \<open>Sample inputs\<close>

text \<open>
  Small concrete inputs on which the theorems below are instantiated: a JPEG file, a HEIC
  file, decoded documents, and versions of the library whose \<open>dump\<close> accepts the
  documents that satisfy a given test and whose \<open>remove\<close> works or raises. With the
  test \<open>without_offset_tags\<close> the sample library rejects what piexifjs 1.0.6 rejects
  among the documents of the cleaner: those that hold one of the three offset tags.
\<close>

definition sample_jpeg :: File where
  "sample_jpeg = \<lparr>fname = ''photo.jpg'', ftype = ''image/jpeg'', fbytes = [255, 216, 255, 225]\<rparr>"

definition sample_heic :: File where
  "sample_heic = \<lparr>fname = ''IMG_1.HEIC'', ftype = [], fbytes = [0, 0, 0, 24, 102]\<rparr>"

definition no_options :: options where
  "no_options = \<lparr>copyright = None, artist = None, offsetTime = None\<rparr>"


definition sample_piexif :: "(exn + exifdoc) \<Rightarrow> (exifdoc \<Rightarrow> bool) \<Rightarrow> bool \<Rightarrow> piexif" where
  "sample_piexif decoded can_dump can_remove =
     \<lparr>piexif_load = (\<lambda>u. decoded),
      piexif_dump = (\<lambda>d. if can_dump d then Inr ''Exif'' else Inl (Exn ''Error'' ''pack error'')),
      piexif_insert = (\<lambda>b u. Inr (u @ b)),
      piexif_remove = (\<lambda>u. if can_remove then Inr ''stripped''
                             else Inl (Exn ''Error'' ''not a jpeg''))\<rparr>"

definition sample_env :: "piexif \<Rightarrow> env" where
  "sample_env p =
     \<lparr>loadPiexif = Inr p,
      convertHeicToJpeg = (\<lambda>f. Inl (Exn ''Error'' ''HEIC decode failed'')),
      blobToDataURL = (\<lambda>f. Inr ''data:image/jpeg;base64,AAAA''),
      dataURLToBlob = (\<lambda>u. Inr \<lparr>btype = ''image/jpeg'', bbytes = map of_char u\<rparr>),
      now_getFullYear = 2024, now_getMonth = 0, now_getDate = 9\<rparr>"

definition doc_orientation :: exifdoc where
  "doc_orientation = empty_document\<lparr>zeroth := [(Orientation, Num (Fin 6))]\<rparr>"


definition doc_date :: "string \<Rightarrow> exifdoc" where
  "doc_date s = empty_document\<lparr>exif := [(DateTimeOriginal, Str s)]\<rparr>"


definition without_offset_tags :: "exifdoc \<Rightarrow> bool" where
  "without_offset_tags d =
     (get_tag (exif d) OffsetTime = Undefined \<and> get_tag (exif d) OffsetTimeOriginal = Undefined
      \<and> get_tag (exif d) OffsetTimeDigitized = Undefined)"


section \<open>Tag directories as lists of entries\<close>

lemmas tag_defs =
  Make_def Model_def Software_def HostComputer_def MakerNote_def UserComment_def
  ImageUniqueID_def CameraOwnerName_def BodySerialNumber_def LensSerialNumber_def
  LensMake_def LensModel_def XPAuthor_def XPComment_def Orientation_def XResolution_def
  YResolution_def ResolutionUnit_def YCbCrPositioning_def Copyright_def Artist_def
  DateTime_def DateTimeOriginal_def ColorSpace_def PixelXDimension_def PixelYDimension_def
  OffsetTime_def OffsetTimeOriginal_def OffsetTimeDigitized_def


section \<open>Format detection on the sample files\<close>

lemma sample_heic_is_heic: "isHeicFormat sample_heic"
  by (simp add: isHeicFormat_def sample_heic_def toLowerCase_def lower_char_def endsWith_def
      char_of_eq_iff)

lemma sample_jpeg_not_heic: "\<not> isHeicFormat sample_jpeg"
  by (simp add: isHeicFormat_def sample_jpeg_def toLowerCase_def lower_char_def endsWith_def
      char_of_eq_iff)

lemma sample_jpeg_is_jpeg: "isJpegFormat sample_jpeg"
  by (simp add: isJpegFormat_def sample_jpeg_def)

lemma sample_env_simps:
  "loadPiexif (sample_env p) = Inr p"
  "blobToDataURL (sample_env p) f = Inr ''data:image/jpeg;base64,AAAA''"
  "convertHeicToJpeg (sample_env p) f = Inl (Exn ''Error'' ''HEIC decode failed'')"
  "dataURLToBlob (sample_env p) u = Inr \<lparr>btype = ''image/jpeg'', bbytes = map of_char u\<rparr>"
  by (simp_all add: sample_env_def)

lemma sample_piexif_simps:
  "piexif_load (sample_piexif decoded can_dump can_remove) u = decoded"
  "piexif_dump (sample_piexif decoded can_dump can_remove) d =
     (if can_dump d then Inr ''Exif'' else Inl (Exn ''Error'' ''pack error''))"
  "piexif_insert (sample_piexif decoded can_dump can_remove) b u = Inr (u @ b)"
  "piexif_remove (sample_piexif decoded can_dump can_remove) u =
     (if can_remove then Inr ''stripped'' else Inl (Exn ''Error'' ''not a jpeg''))"
  by (simp_all add: sample_piexif_def)


lemma get_tag_set_tag: "get_tag (set_tag obj k v) k' = (if k' = k then v else get_tag obj k')"
  by (simp add: get_tag_def set_tag_def update_conv')

lemma get_tag_delete_tag:
  "get_tag (delete_tag obj k) k' = (if k' = k then Undefined else get_tag obj k')"
  by (simp add: get_tag_def delete_tag_def delete_conv')

lemma get_tag_Nil: "get_tag [] k = Undefined"
  by (simp add: get_tag_def)

lemma map_of_set_tag: "map_of (set_tag obj k v) = (map_of obj)(k \<mapsto> v)"
  by (simp add: set_tag_def update_conv')

lemma map_of_delete_tag: "map_of (delete_tag obj k) = (map_of obj)(k := None)"
  by (simp add: delete_tag_def delete_conv')

lemma distinct_set_tag: "distinct (map fst obj) \<Longrightarrow> distinct (map fst (set_tag obj k v))"
  by (simp add: set_tag_def distinct_update)

lemma distinct_delete_tag: "distinct (map fst obj) \<Longrightarrow> distinct (map fst (delete_tag obj k))"
  by (simp add: delete_tag_def distinct_delete)

lemma values_update: "snd ` set (AList.update k v al) \<subseteq> insert v (snd ` set al)"
  by (induction al) auto

lemma values_set_tag: "snd ` set (set_tag obj k v) \<subseteq> insert v (snd ` set obj)"
  by (simp add: set_tag_def values_update)

lemma values_delete_tag: "snd ` set (delete_tag obj k) \<subseteq> snd ` set obj"
  by (auto simp: delete_tag_def AList.delete_eq)




lemma keys_set_tag: "fst ` set (set_tag obj k v) = insert k (fst ` set obj)"
  by (simp add: set_tag_def dom_update)


lemma map_of_cleanExifIfd_loop:
  "distinct (map fst entries) \<Longrightarrow>
   map_of (cleanExifIfd_loop entries pk cleaned) k =
     (case map_of entries k of
        None \<Rightarrow> map_of cleaned k
      | Some v \<Rightarrow>
          if (if k \<in> set pk then v \<noteq> Undefined \<and> v \<noteq> Null else \<not> skipped_value v)
          then Some v else map_of cleaned k)"
proof (induction entries arbitrary: cleaned)
  case Nil
  then show ?case by simp
next
  case (Cons e entries)
  obtain key v where e: "e = (key, v)" by (cases e)
  from Cons.prems e have fresh: "map_of entries key = None"
    by (simp add: map_of_eq_None_iff)
  from Cons.prems have d: "distinct (map fst entries)" by simp
  show ?case
  proof (cases "k = key")
    case True
    then have e': "e = (k, v)" and fresh': "map_of entries k = None"
      using e fresh by simp_all
    show ?thesis
      by (simp add: e' fresh' Cons.IH [OF d] map_of_set_tag)
  next
    case False
    then show ?thesis
      by (simp add: e Cons.IH [OF d] map_of_set_tag split: option.splits)
  qed
qed

lemma get_tag_cleanExifIfd:
  assumes "distinct (map fst obj)"
  shows "get_tag (cleanExifIfd obj pk) k =
     (if k \<in> set pk then (if get_tag obj k = Null then Undefined else get_tag obj k)
      else if skipped_value (get_tag obj k) then Undefined else get_tag obj k)"
  using assms
  by (auto simp add: get_tag_def cleanExifIfd_def map_of_cleanExifIfd_loop split: option.splits)





section \<open>The steps of the redaction\<close>



lemma delete_tag_mem: "e \<in> set (delete_tag obj k) \<Longrightarrow> e \<in> set obj"
  by (simp add: delete_tag_def AList.delete_eq)


lemma valid_delete_tag:
  assumes "list_all (\<lambda>e. \<not> skipped_value (snd e)) obj"
  shows "list_all (\<lambda>e. \<not> skipped_value (snd e)) (delete_tag obj k)"
  unfolding list_all_iff
proof
  fix e
  assume "e \<in> set (delete_tag obj k)"
  then have "e \<in> set obj"
    by (rule delete_tag_mem)
  with assms show "\<not> skipped_value (snd e)"
    by (simp add: list_all_iff)
qed

subsection \<open>remove_reported\<close>

lemma get_tag_remove_reported:
  "get_tag (fst (remove_reported k label s)) k' = (if k' = k then Undefined else get_tag (fst s) k')"
  by (simp add: remove_reported_def split_def get_tag_delete_tag)

lemma map_of_remove_reported:
  "k' \<noteq> k \<Longrightarrow> map_of (fst (remove_reported k label s)) k' = map_of (fst s) k'"
  by (simp add: remove_reported_def split_def map_of_delete_tag)

lemma distinct_remove_reported:
  "distinct (map fst (fst s)) \<Longrightarrow> distinct (map fst (fst (remove_reported k label s)))"
  by (simp add: remove_reported_def split_def distinct_delete_tag)

lemma valid_remove_reported:
  "list_all (\<lambda>e. \<not> skipped_value (snd e)) (fst s) \<Longrightarrow>
   list_all (\<lambda>e. \<not> skipped_value (snd e)) (fst (remove_reported k label s))"
  by (simp add: remove_reported_def split_def valid_delete_tag)

lemmas remove_reported_simps =
  get_tag_remove_reported map_of_remove_reported distinct_remove_reported valid_remove_reported

subsection \<open>steps 2, 3, 5\<close>

lemma get_tag_remove_device_info:
  "k \<noteq> Make \<Longrightarrow> k \<noteq> Model \<Longrightarrow> k \<noteq> Software \<Longrightarrow> k \<noteq> HostComputer \<Longrightarrow>
   get_tag (fst (remove_device_info s)) k = get_tag (fst s) k"
  by (simp add: remove_device_info_def Let_def get_tag_remove_reported)

lemma map_of_remove_device_info:
  "k \<noteq> Make \<Longrightarrow> k \<noteq> Model \<Longrightarrow> k \<noteq> Software \<Longrightarrow> k \<noteq> HostComputer \<Longrightarrow>
   map_of (fst (remove_device_info s)) k = map_of (fst s) k"
  by (simp add: remove_device_info_def Let_def map_of_remove_reported)

lemma distinct_remove_device_info:
  "distinct (map fst (fst s)) \<Longrightarrow> distinct (map fst (fst (remove_device_info s)))"
  by (simp add: remove_device_info_def Let_def distinct_remove_reported)


lemma get_tag_remove_exif_privacy:
  "k \<noteq> MakerNote \<Longrightarrow> k \<noteq> UserComment \<Longrightarrow> k \<noteq> ImageUniqueID \<Longrightarrow> k \<noteq> CameraOwnerName \<Longrightarrow>
   k \<noteq> BodySerialNumber \<Longrightarrow> k \<noteq> LensMake \<Longrightarrow> k \<noteq> LensModel \<Longrightarrow> k \<noteq> LensSerialNumber \<Longrightarrow>
   get_tag (fst (remove_exif_privacy s)) k = get_tag (fst s) k"
  by (simp add: remove_exif_privacy_def Let_def get_tag_remove_reported)

lemma map_of_remove_exif_privacy:
  "k \<noteq> MakerNote \<Longrightarrow> k \<noteq> UserComment \<Longrightarrow> k \<noteq> ImageUniqueID \<Longrightarrow> k \<noteq> CameraOwnerName \<Longrightarrow>
   k \<noteq> BodySerialNumber \<Longrightarrow> k \<noteq> LensMake \<Longrightarrow> k \<noteq> LensModel \<Longrightarrow> k \<noteq> LensSerialNumber \<Longrightarrow>
   map_of (fst (remove_exif_privacy s)) k = map_of (fst s) k"
  by (simp add: remove_exif_privacy_def Let_def map_of_remove_reported)

lemma distinct_remove_exif_privacy:
  "distinct (map fst (fst s)) \<Longrightarrow> distinct (map fst (fst (remove_exif_privacy s)))"
  by (simp add: remove_exif_privacy_def Let_def distinct_remove_reported)


lemma fst_add_copyright:
  "fst (add_copyright c a s) = set_tag (set_tag (fst s) Copyright (Str c)) Artist (Str a)"
  by (simp add: add_copyright_def split_def Let_def)

lemma fst_remove_gps: "fst (remove_gps s) = (fst s)\<lparr>gps := []\<rparr>"
  by (simp add: remove_gps_def split_def)

lemma fst_remove_thumbnail:
  "fst (remove_thumbnail s) =
     (fst s)\<lparr>first := [],
             thumbnail := (if truthy (thumbnail (fst s)) then Undefined else thumbnail (fst s))\<rparr>"
  by (simp add: remove_thumbnail_def split_def Let_def)

subsection \<open>steps 1 to 5 together\<close>

lemma zeroth_remove_privacy:
  "zeroth (fst (remove_privacy c a exifObj r0)) =
     set_tag (set_tag (fst (remove_device_info (zeroth exifObj, snd (remove_gps (exifObj, r0)))))
                Copyright (Str c)) Artist (Str a)"
  by (simp add: remove_privacy_def split_def Let_def fst_add_copyright fst_remove_thumbnail
      fst_remove_gps)

lemma exif_remove_privacy:
  "exif (fst (remove_privacy c a exifObj r0)) =
     fst (remove_exif_privacy
            (exif exifObj,
             snd (remove_device_info (zeroth exifObj, snd (remove_gps (exifObj, r0))))))"
  by (simp add: remove_privacy_def split_def Let_def fst_add_copyright fst_remove_thumbnail
      fst_remove_gps)

lemma other_groups_remove_privacy:
  "gps (fst (remove_privacy c a exifObj r0)) = []"
  "first (fst (remove_privacy c a exifObj r0)) = []"
  "interop (fst (remove_privacy c a exifObj r0)) = interop exifObj"
  by (simp_all add: remove_privacy_def split_def Let_def fst_add_copyright fst_remove_thumbnail
      fst_remove_gps)

subsection \<open>step 6\<close>

lemma not_skipped_Str: "\<not> skipped_value (Str s)"
  by simp


lemma rewrite_DateTimeOriginal_distinct:
  assumes "rewrite_DateTimeOriginal s = Inr (obj, r)" and "distinct (map fst (fst s))"
  shows "distinct (map fst obj)"
  using assms
  by (auto simp: rewrite_DateTimeOriginal_def split_def Let_def distinct_set_tag
      split: if_splits sum.splits option.splits)


lemma rewrite_DateTimeOriginal_value:
  assumes "rewrite_DateTimeOriginal s = Inr (obj, r)"
  shows "get_tag obj DateTimeOriginal =
     (case formatExifDate (get_tag (fst s) DateTimeOriginal) of
        Inr (Some cd) \<Rightarrow> if truthy (get_tag (fst s) DateTimeOriginal) then Str cd
                        else get_tag (fst s) DateTimeOriginal
      | _ \<Rightarrow> get_tag (fst s) DateTimeOriginal)"
  using assms
  by (auto simp: rewrite_DateTimeOriginal_def split_def Let_def get_tag_set_tag
      split: if_splits sum.splits option.splits)

lemma rewrite_DateTime_other:
  assumes "rewrite_DateTime ifd0 = Inr obj" and "k \<noteq> DateTime"
  shows "map_of obj k = map_of ifd0 k"
  using assms
  by (auto simp: rewrite_DateTime_def Let_def map_of_set_tag
      split: if_splits sum.splits option.splits)

lemma rewrite_DateTime_distinct:
  assumes "rewrite_DateTime ifd0 = Inr obj" and "distinct (map fst ifd0)"
  shows "distinct (map fst obj)"
  using assms
  by (auto simp: rewrite_DateTime_def Let_def distinct_set_tag
      split: if_splits sum.splits option.splits)


lemma rewrite_DateTime_value:
  assumes "rewrite_DateTime ifd0 = Inr obj"
  shows "get_tag obj DateTime =
     (case formatExifDate (get_tag ifd0 DateTime) of
        Inr (Some cd) \<Rightarrow> if truthy (get_tag ifd0 DateTime) then Str cd else get_tag ifd0 DateTime
      | _ \<Rightarrow> get_tag ifd0 DateTime)"
  using assms
  by (auto simp: rewrite_DateTime_def Let_def get_tag_set_tag
      split: if_splits sum.splits option.splits)

lemma fst_set_offset_times:
  "fst (set_offset_times o_s s) =
     set_tag (set_tag (set_tag (fst s) OffsetTimeOriginal (Str o_s)) OffsetTimeDigitized (Str o_s))
       OffsetTime (Str o_s)"
  by (simp add: set_offset_times_def split_def Let_def)

lemma rewrite_dates_Inr:
  assumes "rewrite_dates o_s s = Inr (d, r)"
  obtains obj r2 where
    "rewrite_DateTimeOriginal (exif (fst s), snd s) = Inr (obj, r2)"
    "exif d = set_tag (set_tag (set_tag obj OffsetTimeOriginal (Str o_s))
                         OffsetTimeDigitized (Str o_s)) OffsetTime (Str o_s)"
    "rewrite_DateTime (zeroth (fst s)) = Inr (zeroth d)"
    "gps d = gps (fst s)" "first d = first (fst s)" "interop d = interop (fst s)"
    "thumbnail d = thumbnail (fst s)"
  using assms
  by (auto simp: rewrite_dates_def split_def Let_def fst_set_offset_times
      split: sum.splits)


section \<open>The redacted document\<close>

subsection \<open>formatExifDate on strings\<close>

lemma match_date_take:
  "match_date s = Some (y, m, d) \<Longrightarrow> y @ '':'' @ m @ '':'' @ d = take 10 s \<and> s \<noteq> []"
  by (cases s rule: match_date.cases) (auto split: if_splits)

lemma formatExifDate_match:
  "match_date s = Some (y, m, d) \<Longrightarrow>
   formatExifDate (Str s) = Inr (Some (take 10 s @ '' 00:00:00''))"
  using match_date_take [of s y m d] by auto

lemma formatExifDate_no_match:
  "match_date s = None \<Longrightarrow> formatExifDate (Str s) = Inr None"
  by simp

subsection \<open>redact\<close>

lemma redact_Inr:
  assumes "redact c a o_s exifObj r0 = Inr (d, r)"
  obtains obj r1 r2 where
    "rewrite_DateTimeOriginal (exif (fst (remove_privacy c a exifObj r0)), r1) = Inr (obj, r2)"
    "exif d = set_tag (set_tag (set_tag obj OffsetTimeOriginal (Str o_s))
                         OffsetTimeDigitized (Str o_s)) OffsetTime (Str o_s)"
    "rewrite_DateTime (zeroth (fst (remove_privacy c a exifObj r0))) = Inr (zeroth d)"
    "gps d = []" "first d = []" "interop d = interop exifObj"
  using assms unfolding redact_def
  by (erule_tac rewrite_dates_Inr) (simp add: other_groups_remove_privacy)

lemma redact_zeroth_other:
  assumes "redact c a o_s exifObj r0 = Inr (d, r)"
    and "k \<noteq> DateTime" "k \<noteq> Copyright" "k \<noteq> Artist"
    and "k \<noteq> Make" "k \<noteq> Model" "k \<noteq> Software" "k \<noteq> HostComputer"
  shows "map_of (zeroth d) k = map_of (zeroth exifObj) k"
proof -
  from assms(1) obtain obj r1 r2 where
    z: "rewrite_DateTime (zeroth (fst (remove_privacy c a exifObj r0))) = Inr (zeroth d)"
    by (rule redact_Inr)
  show ?thesis
    using rewrite_DateTime_other [OF z assms(2)] assms(3-)
    by (simp add: zeroth_remove_privacy map_of_set_tag map_of_remove_device_info)
qed

lemma redact_zeroth_attribution:
  assumes "redact c a o_s exifObj r0 = Inr (d, r)"
  shows "map_of (zeroth d) Copyright = Some (Str c)" and "map_of (zeroth d) Artist = Some (Str a)"
proof -
  from assms(1) obtain obj r1 r2 where
    z: "rewrite_DateTime (zeroth (fst (remove_privacy c a exifObj r0))) = Inr (zeroth d)"
    by (rule redact_Inr)
  show "map_of (zeroth d) Copyright = Some (Str c)"
    using rewrite_DateTime_other [OF z, of Copyright]
    by (simp add: zeroth_remove_privacy map_of_set_tag tag_defs)
  show "map_of (zeroth d) Artist = Some (Str a)"
    using rewrite_DateTime_other [OF z, of Artist]
    by (simp add: zeroth_remove_privacy map_of_set_tag tag_defs)
qed

lemma redact_zeroth_DateTime:
  assumes "redact c a o_s exifObj r0 = Inr (d, r)"
  shows "get_tag (zeroth d) DateTime =
     (case formatExifDate (get_tag (zeroth exifObj) DateTime) of
        Inr (Some cd) \<Rightarrow> if truthy (get_tag (zeroth exifObj) DateTime) then Str cd
                        else get_tag (zeroth exifObj) DateTime
      | _ \<Rightarrow> get_tag (zeroth exifObj) DateTime)"
proof -
  from assms(1) obtain obj r1 r2 where
    z: "rewrite_DateTime (zeroth (fst (remove_privacy c a exifObj r0))) = Inr (zeroth d)"
    by (rule redact_Inr)
  have same: "get_tag (zeroth (fst (remove_privacy c a exifObj r0))) DateTime
                = get_tag (zeroth exifObj) DateTime"
    by (simp add: zeroth_remove_privacy get_tag_set_tag get_tag_remove_device_info tag_defs)
  show ?thesis
    using rewrite_DateTime_value [OF z] by (simp add: same split: sum.splits option.splits)
qed

lemma redact_exif_offsets:
  assumes "redact c a o_s exifObj r0 = Inr (d, r)"
  shows "map_of (exif d) OffsetTime = Some (Str o_s)"
    and "map_of (exif d) OffsetTimeOriginal = Some (Str o_s)"
    and "map_of (exif d) OffsetTimeDigitized = Some (Str o_s)"
proof -
  from assms(1) obtain obj r1 r2 where
    e: "exif d = set_tag (set_tag (set_tag obj OffsetTimeOriginal (Str o_s))
                         OffsetTimeDigitized (Str o_s)) OffsetTime (Str o_s)"
    by (rule redact_Inr)
  show "map_of (exif d) OffsetTime = Some (Str o_s)"
    and "map_of (exif d) OffsetTimeOriginal = Some (Str o_s)"
    and "map_of (exif d) OffsetTimeDigitized = Some (Str o_s)"
    by (simp_all add: e map_of_set_tag tag_defs)
qed

lemma redact_exif_DateTimeOriginal:
  assumes "redact c a o_s exifObj r0 = Inr (d, r)"
  shows "get_tag (exif d) DateTimeOriginal =
     (case formatExifDate (get_tag (exif exifObj) DateTimeOriginal) of
        Inr (Some cd) \<Rightarrow> if truthy (get_tag (exif exifObj) DateTimeOriginal) then Str cd
                        else get_tag (exif exifObj) DateTimeOriginal
      | _ \<Rightarrow> get_tag (exif exifObj) DateTimeOriginal)"
proof -
  from assms(1) obtain obj r1 r2 where
    o: "rewrite_DateTimeOriginal (exif (fst (remove_privacy c a exifObj r0)), r1) = Inr (obj, r2)"
    and e: "exif d = set_tag (set_tag (set_tag obj OffsetTimeOriginal (Str o_s))
                         OffsetTimeDigitized (Str o_s)) OffsetTime (Str o_s)"
    by (rule redact_Inr)
  have same: "get_tag (exif (fst (remove_privacy c a exifObj r0))) DateTimeOriginal
                = get_tag (exif exifObj) DateTimeOriginal"
    by (simp add: exif_remove_privacy get_tag_remove_exif_privacy tag_defs)
  have "get_tag (exif d) DateTimeOriginal = get_tag obj DateTimeOriginal"
    by (simp add: e get_tag_set_tag tag_defs)
  then show ?thesis
    using rewrite_DateTimeOriginal_value [OF o] by (simp add: same split: sum.splits option.splits)
qed

lemma redact_distinct:
  assumes "redact c a o_s exifObj r0 = Inr (d, r)"
  shows "distinct (map fst (zeroth exifObj)) \<Longrightarrow> distinct (map fst (zeroth d))"
    and "distinct (map fst (exif exifObj)) \<Longrightarrow> distinct (map fst (exif d))"
proof -
  from assms(1) obtain obj r1 r2 where
    o: "rewrite_DateTimeOriginal (exif (fst (remove_privacy c a exifObj r0)), r1) = Inr (obj, r2)"
    and e: "exif d = set_tag (set_tag (set_tag obj OffsetTimeOriginal (Str o_s))
                         OffsetTimeDigitized (Str o_s)) OffsetTime (Str o_s)"
    and z: "rewrite_DateTime (zeroth (fst (remove_privacy c a exifObj r0))) = Inr (zeroth d)"
    by (rule redact_Inr)
  show "distinct (map fst (zeroth exifObj)) \<Longrightarrow> distinct (map fst (zeroth d))"
    by (rule rewrite_DateTime_distinct [OF z])
      (simp add: zeroth_remove_privacy distinct_set_tag distinct_remove_device_info)
  show "distinct (map fst (exif exifObj)) \<Longrightarrow> distinct (map fst (exif d))"
    using rewrite_DateTimeOriginal_distinct [OF o]
    by (simp add: e exif_remove_privacy distinct_set_tag distinct_remove_exif_privacy)
qed



section \<open>The tiers\<close>

subsection \<open>The documents of the three tiers\<close>

lemma get_tag_of_map_of: "map_of obj k = map_of obj' k \<Longrightarrow> get_tag obj k = get_tag obj' k"
  by (simp add: get_tag_def)

lemma get_tag_of_Some: "map_of obj k = Some v \<Longrightarrow> get_tag obj k = v"
  by (simp add: get_tag_def)

lemma get_tag_set_if_defined:
  "get_tag (set_if_defined obj k v) k' =
     (if k' = k \<and> v \<noteq> Undefined then v else get_tag obj k')"
  by (simp add: set_if_defined_def get_tag_set_tag)

lemma get_tag_set_if_truthy:
  "get_tag (set_if_truthy obj k v) k' = (if k' = k \<and> truthy v then v else get_tag obj k')"
  by (simp add: set_if_truthy_def get_tag_set_tag)

lemma tier1_groups:
  "zeroth (tier1_document d ori) =
     (if ori \<noteq> Undefined \<and> ori \<noteq> Null
      then set_tag (cleanExifIfd (zeroth d) ifd0PreserveKeys) Orientation ori
      else cleanExifIfd (zeroth d) ifd0PreserveKeys)"
  "exif (tier1_document d ori) = cleanExifIfd (exif d) exifPreserveKeys"
  "gps (tier1_document d ori) = cleanExifIfd (gps d) []"
  "first (tier1_document d ori) = cleanExifIfd (first d) []"
  "interop (tier1_document d ori) = cleanExifIfd (interop d) []"
  by (simp_all add: tier1_document_def Let_def)

lemma minimalExif_zeroth:
  "get_tag (zeroth (minimalExif ifd0 exifIfd c a o_s)) Orientation = get_tag ifd0 Orientation"
  "get_tag (zeroth (minimalExif ifd0 exifIfd c a o_s)) Copyright = Str c"
  "get_tag (zeroth (minimalExif ifd0 exifIfd c a o_s)) Artist = Str a"
  "get_tag (zeroth (minimalExif ifd0 exifIfd c a o_s)) DateTime =
     (if truthy (get_tag ifd0 DateTime) then get_tag ifd0 DateTime else Undefined)"
  by (simp_all add: minimalExif_def Let_def empty_document_def get_tag_set_tag
      get_tag_set_if_defined get_tag_set_if_truthy get_tag_Nil tag_defs)

lemma minimalExif_exif:
  "get_tag (exif (minimalExif ifd0 exifIfd c a o_s)) OffsetTime = Str o_s"
  "get_tag (exif (minimalExif ifd0 exifIfd c a o_s)) OffsetTimeOriginal = Str o_s"
  "get_tag (exif (minimalExif ifd0 exifIfd c a o_s)) OffsetTimeDigitized = Str o_s"
  "get_tag (exif (minimalExif ifd0 exifIfd c a o_s)) DateTimeOriginal =
     (if truthy (get_tag exifIfd DateTimeOriginal) then get_tag exifIfd DateTimeOriginal
      else Undefined)"
  by (simp_all add: minimalExif_def Let_def empty_document_def get_tag_set_tag
      get_tag_set_if_defined get_tag_set_if_truthy get_tag_Nil tag_defs)


lemma safeExif_zeroth:
  "get_tag (zeroth (safeExif c a ori)) Copyright = Str c"
  "get_tag (zeroth (safeExif c a ori)) Artist = Str a"
  "ori \<noteq> Undefined \<Longrightarrow> ori \<noteq> Null \<Longrightarrow> get_tag (zeroth (safeExif c a ori)) Orientation = ori"
  by (simp_all add: safeExif_def Let_def empty_document_def get_tag_set_tag get_tag_Nil tag_defs)

lemma safeExif_groups:
  "exif (safeExif c a ori) = []"
  "gps (safeExif c a ori) = []"
  "first (safeExif c a ori) = []"
  "interop (safeExif c a ori) = []"
  by (simp_all add: safeExif_def Let_def empty_document_def)

subsection \<open>The chain\<close>

lemma fallback_chain_Written:
  assumes "fallback_chain p url full minimal safe r = (Written t doc u, r')"
  shows "(t = Tier1 \<and> doc = full) \<or> (t = Tier2 \<and> doc = minimal) \<or> (t = Tier3 \<and> doc = safe)"
  using assms
  by (auto simp: fallback_chain_def minimal_tier_def safe_tier_def bare_strip_def
      split: sum.splits)

lemma redact_and_encode_Written:
  assumes "redact_and_encode p url exifObj c a o_s r0 = Inr (Written t doc u, r')"
  obtains d r where "redact c a o_s exifObj r0 = Inr (d, r)"
    and "(t = Tier1 \<and> doc = tier1_document d (get_tag (zeroth exifObj) Orientation))
       \<or> (t = Tier2 \<and> doc = minimalExif (zeroth d) (exif d) c a o_s)
       \<or> (t = Tier3 \<and> doc = safeExif c a (get_tag (zeroth exifObj) Orientation))"
proof -
  from assms obtain d r where red: "redact c a o_s exifObj r0 = Inr (d, r)"
    and ch: "fallback_chain p url (tier1_document d (get_tag (zeroth exifObj) Orientation))
               (minimalExif (zeroth d) (exif d) c a o_s)
               (safeExif c a (get_tag (zeroth exifObj) Orientation)) r = (Written t doc u, r')"
    by (auto simp: redact_and_encode_def Let_def split: sum.splits prod.splits)
  from fallback_chain_Written [OF ch] red that show thesis
    by blast
qed


section \<open>Attribution and offset times in the tiers\<close>

lemma wellformed_redacted:
  assumes "redact c a o_s exifObj r0 = Inr (d, r)" and "wellformed_document exifObj"
  shows "distinct (map fst (zeroth d))" and "distinct (map fst (exif d))"
  using redact_distinct [OF assms(1)] assms(2) by (simp_all add: wellformed_document_def)

lemma tier1_zeroth_string:
  assumes "distinct (map fst (zeroth d))" and "get_tag (zeroth d) k = Str s"
    and "k \<noteq> Orientation" and "k \<notin> set ifd0PreserveKeys"
  shows "get_tag (zeroth (tier1_document d ori)) k = Str s"
  using assms by (simp add: tier1_groups get_tag_set_tag get_tag_cleanExifIfd)

lemma tier1_exif_string:
  assumes "distinct (map fst (exif d))" and "get_tag (exif d) k = Str s"
    and "k \<notin> set exifPreserveKeys"
  shows "get_tag (exif (tier1_document d ori)) k = Str s"
  using assms by (simp add: tier1_groups get_tag_cleanExifIfd)

lemma attribution_and_offsets:
  assumes "redact_and_encode p url exifObj c a o_s r0 = Inr (Written t doc u, r')"
    and "wellformed_document exifObj"
  shows "get_tag (zeroth doc) Copyright = Str c \<and> get_tag (zeroth doc) Artist = Str a
       \<and> (t \<noteq> Tier3 \<longrightarrow> get_tag (exif doc) OffsetTime = Str o_s
                       \<and> get_tag (exif doc) OffsetTimeOriginal = Str o_s
                       \<and> get_tag (exif doc) OffsetTimeDigitized = Str o_s)
       \<and> (t = Tier3 \<longrightarrow> exif doc = [])"
proof -
  from assms(1) obtain d r where red: "redact c a o_s exifObj r0 = Inr (d, r)"
    and tiers: "(t = Tier1 \<and> doc = tier1_document d (get_tag (zeroth exifObj) Orientation))
       \<or> (t = Tier2 \<and> doc = minimalExif (zeroth d) (exif d) c a o_s)
       \<or> (t = Tier3 \<and> doc = safeExif c a (get_tag (zeroth exifObj) Orientation))"
    by (rule redact_and_encode_Written)
  note dz = wellformed_redacted(1) [OF red assms(2)]
  note de = wellformed_redacted(2) [OF red assms(2)]
  have zc: "get_tag (zeroth d) Copyright = Str c" and za: "get_tag (zeroth d) Artist = Str a"
    using redact_zeroth_attribution [OF red] by (simp_all add: get_tag_def)
  have eo: "get_tag (exif d) OffsetTime = Str o_s"
    "get_tag (exif d) OffsetTimeOriginal = Str o_s"
    "get_tag (exif d) OffsetTimeDigitized = Str o_s"
    using redact_exif_offsets [OF red] by (simp_all add: get_tag_def)
  from tiers show ?thesis
  proof (elim disjE conjE)
    assume t: "t = Tier1" and doc: "doc = tier1_document d (get_tag (zeroth exifObj) Orientation)"
    have "get_tag (zeroth doc) Copyright = Str c"
      unfolding doc by (rule tier1_zeroth_string [OF dz zc]) (simp_all add: ifd0PreserveKeys_def tag_defs)
    moreover have "get_tag (zeroth doc) Artist = Str a"
      unfolding doc by (rule tier1_zeroth_string [OF dz za]) (simp_all add: ifd0PreserveKeys_def tag_defs)
    moreover have "get_tag (exif doc) OffsetTime = Str o_s"
      unfolding doc by (rule tier1_exif_string [OF de eo(1)]) (simp add: exifPreserveKeys_def tag_defs)
    moreover have "get_tag (exif doc) OffsetTimeOriginal = Str o_s"
      unfolding doc by (rule tier1_exif_string [OF de eo(2)]) (simp add: exifPreserveKeys_def tag_defs)
    moreover have "get_tag (exif doc) OffsetTimeDigitized = Str o_s"
      unfolding doc by (rule tier1_exif_string [OF de eo(3)]) (simp add: exifPreserveKeys_def tag_defs)
    ultimately show ?thesis using t by simp
  next
    assume "t = Tier2" and "doc = minimalExif (zeroth d) (exif d) c a o_s"
    then show ?thesis
      by (simp add: minimalExif_zeroth minimalExif_exif)
  next
    assume "t = Tier3" and "doc = safeExif c a (get_tag (zeroth exifObj) Orientation)"
    then show ?thesis
      by (simp add: safeExif_zeroth safeExif_groups)
  qed
qed


section \<open>The date tags in the tiers\<close>

lemma redacted_date_string:
  "(case formatExifDate (Str s) of
      Inr (Some cd) \<Rightarrow> if truthy (Str s) then Str cd else Str s
    | _ \<Rightarrow> Str s)
   = Str (if match_date s = None then s else take 10 s @ '' 00:00:00'')"
proof (cases "match_date s")
  case None
  then show ?thesis by simp
next
  case (Some ymd)
  obtain y m d where ymd: "ymd = (y, m, d)" by (cases ymd)
  from Some ymd have m: "match_date s = Some (y, m, d)" by simp
  from match_date_take [OF m] have "s \<noteq> []" by simp
  then show ?thesis
    using formatExifDate_match [OF m] m by simp
qed

lemma truthy_redacted_date:
  "s \<noteq> [] \<Longrightarrow> truthy (Str (if match_date s = None then s else take 10 s @ '' 00:00:00''))"
  by simp

lemma tiers_1_2_DateTimeOriginal:
  assumes "redact_and_encode p url exifObj c a o_s r0 = Inr (Written t doc u, r')"
    and "wellformed_document exifObj" and "t \<noteq> Tier3"
    and "get_tag (exif exifObj) DateTimeOriginal = Str s" and "s \<noteq> []"
  shows "get_tag (exif doc) DateTimeOriginal
           = Str (if match_date s = None then s else take 10 s @ '' 00:00:00'')"
proof -
  from assms(1) obtain d r where red: "redact c a o_s exifObj r0 = Inr (d, r)"
    and tiers: "(t = Tier1 \<and> doc = tier1_document d (get_tag (zeroth exifObj) Orientation))
       \<or> (t = Tier2 \<and> doc = minimalExif (zeroth d) (exif d) c a o_s)
       \<or> (t = Tier3 \<and> doc = safeExif c a (get_tag (zeroth exifObj) Orientation))"
    by (rule redact_and_encode_Written)
  have val: "get_tag (exif d) DateTimeOriginal
               = Str (if match_date s = None then s else take 10 s @ '' 00:00:00'')"
    using redact_exif_DateTimeOriginal [OF red] redacted_date_string [of s]
    by (simp only: assms(4))
  from tiers assms(3) show ?thesis
  proof (elim disjE conjE)
    assume "doc = tier1_document d (get_tag (zeroth exifObj) Orientation)"
    then show ?thesis
      using tier1_exif_string [OF wellformed_redacted(2) [OF red assms(2)] val]
      by (simp add: exifPreserveKeys_def tag_defs)
  next
    assume "doc = minimalExif (zeroth d) (exif d) c a o_s"
    then show ?thesis
      using truthy_redacted_date [OF assms(5)] by (simp only: minimalExif_exif val if_True)
  qed simp
qed

lemma tiers_1_2_DateTime:
  assumes "redact_and_encode p url exifObj c a o_s r0 = Inr (Written t doc u, r')"
    and "wellformed_document exifObj" and "t \<noteq> Tier3"
    and "get_tag (zeroth exifObj) DateTime = Str s" and "s \<noteq> []"
  shows "get_tag (zeroth doc) DateTime
           = Str (if match_date s = None then s else take 10 s @ '' 00:00:00'')"
proof -
  from assms(1) obtain d r where red: "redact c a o_s exifObj r0 = Inr (d, r)"
    and tiers: "(t = Tier1 \<and> doc = tier1_document d (get_tag (zeroth exifObj) Orientation))
       \<or> (t = Tier2 \<and> doc = minimalExif (zeroth d) (exif d) c a o_s)
       \<or> (t = Tier3 \<and> doc = safeExif c a (get_tag (zeroth exifObj) Orientation))"
    by (rule redact_and_encode_Written)
  have val: "get_tag (zeroth d) DateTime
               = Str (if match_date s = None then s else take 10 s @ '' 00:00:00'')"
    using redact_zeroth_DateTime [OF red] redacted_date_string [of s]
    by (simp only: assms(4))
  from tiers assms(3) show ?thesis
  proof (elim disjE conjE)
    assume "doc = tier1_document d (get_tag (zeroth exifObj) Orientation)"
    then show ?thesis
      using tier1_zeroth_string [OF wellformed_redacted(1) [OF red assms(2)] val]
      by (simp add: ifd0PreserveKeys_def tag_defs)
  next
    assume "doc = minimalExif (zeroth d) (exif d) c a o_s"
    then show ?thesis
      using truthy_redacted_date [OF assms(5)] by (simp only: minimalExif_zeroth val if_True)
  qed simp
qed


section \<open>The result object through the redaction and the chain\<close>

lemma report_only_refl: "report_only r r"
  by (simp add: report_only_def)

lemma report_only_trans: "report_only r r' \<Longrightarrow> report_only r' r'' \<Longrightarrow> report_only r r''"
  by (simp add: report_only_def)

lemma report_only_push_added: "report_only r (push_added r s)"
  by (simp add: report_only_def push_added_def)

lemma report_only_push_removed:
  "s \<noteq> ''GPS (entire block)'' \<Longrightarrow> report_only r (push_removed r s)"
  by (auto simp add: report_only_def push_removed_def)

lemma report_only_remove_reported:
  assumes "\<And>v. label v \<noteq> ''GPS (entire block)''"
  shows "report_only (snd s) (snd (remove_reported k label s))"
  using assms by (simp add: remove_reported_def split_def report_only_refl report_only_push_removed)

lemma report_only_remove_device_info: "report_only (snd s) (snd (remove_device_info s))"
  unfolding remove_device_info_def Let_def
  by (intro report_only_trans [OF _ report_only_remove_reported] report_only_remove_reported)
    simp_all

lemma report_only_remove_exif_privacy: "report_only (snd s) (snd (remove_exif_privacy s))"
  unfolding remove_exif_privacy_def Let_def
  by (intro report_only_trans [OF _ report_only_remove_reported] report_only_remove_reported)
    simp_all

lemma report_only_remove_thumbnail: "report_only (snd s) (snd (remove_thumbnail s))"
  by (simp add: remove_thumbnail_def split_def Let_def report_only_refl report_only_push_removed)

lemma report_only_add_copyright: "report_only (snd s) (snd (add_copyright c a s))"
  by (simp add: add_copyright_def split_def Let_def report_only_def push_added_def)

lemma remove_gps_report:
  "success (snd (remove_gps (d, r))) = success r"
  "originalSize (snd (remove_gps (d, r))) = originalSize r"
  "''GPS (entire block)'' \<in> set (removedFields (snd (remove_gps (d, r))))
     \<longleftrightarrow> gps d \<noteq> [] \<or> ''GPS (entire block)'' \<in> set (removedFields r)"
  by (simp_all add: remove_gps_def push_removed_def)

lemma snd_remove_privacy:
  "report_only (snd (remove_gps (exifObj, r0))) (snd (remove_privacy c a exifObj r0))"
proof -
  obtain d1 r1 where s1: "remove_gps (exifObj, r0) = (d1, r1)"
    by (cases "remove_gps (exifObj, r0)")
  obtain ifd0a r2 where s2: "remove_device_info (zeroth d1, r1) = (ifd0a, r2)"
    by (cases "remove_device_info (zeroth d1, r1)")
  obtain exifIfd r3 where s3: "remove_exif_privacy (exif d1, r2) = (exifIfd, r3)"
    by (cases "remove_exif_privacy (exif d1, r2)")
  obtain d4 r4 where s4: "remove_thumbnail (d1\<lparr>zeroth := ifd0a, exif := exifIfd\<rparr>, r3) = (d4, r4)"
    by (cases "remove_thumbnail (d1\<lparr>zeroth := ifd0a, exif := exifIfd\<rparr>, r3)")
  obtain ifd0b r5 where s5: "add_copyright c a (zeroth d4, r4) = (ifd0b, r5)"
    by (cases "add_copyright c a (zeroth d4, r4)")
  have e: "snd (remove_privacy c a exifObj r0) = r5"
    by (simp add: remove_privacy_def s1 s2 s3 s4 s5)
  have a12: "report_only r1 r2"
    using report_only_remove_device_info [of "(zeroth d1, r1)"] by (simp add: s2)
  have a23: "report_only r2 r3"
    using report_only_remove_exif_privacy [of "(exif d1, r2)"] by (simp add: s3)
  have a34: "report_only r3 r4"
    using report_only_remove_thumbnail [of "(d1\<lparr>zeroth := ifd0a, exif := exifIfd\<rparr>, r3)"]
    by (simp add: s4)
  have a45: "report_only r4 r5"
    using report_only_add_copyright [of "(zeroth d4, r4)" c a] by (simp add: s5)
  have "report_only r1 r5"
    by (rule report_only_trans [OF report_only_trans [OF report_only_trans [OF a12 a23] a34] a45])
  then show ?thesis
    by (simp add: e s1)
qed

lemma report_only_rewrite_DateTimeOriginal:
  "rewrite_DateTimeOriginal s = Inr (obj, r) \<Longrightarrow> report_only (snd s) r"
  "rewrite_DateTimeOriginal s = Inl (e, r) \<Longrightarrow> report_only (snd s) r"
  by (auto simp: rewrite_DateTimeOriginal_def split_def Let_def report_only_refl
      report_only_push_added split: if_splits sum.splits option.splits)

lemma report_only_set_offset_times: "report_only (snd s) (snd (set_offset_times o_s s))"
  by (simp add: set_offset_times_def split_def Let_def report_only_push_added)

lemma report_only_rewrite_dates:
  "rewrite_dates o_s s = Inr (d, r) \<Longrightarrow> report_only (snd s) r"
  "rewrite_dates o_s s = Inl (e, r) \<Longrightarrow> report_only (snd s) r"
proof -
  show "rewrite_dates o_s s = Inr (d, r) \<Longrightarrow> report_only (snd s) r"
    using report_only_rewrite_DateTimeOriginal(1) [of "(exif (fst s), snd s)"]
      report_only_set_offset_times [of _ o_s]
    by (auto simp: rewrite_dates_def split_def Let_def split: sum.splits
        intro: report_only_trans)
  show "rewrite_dates o_s s = Inl (e, r) \<Longrightarrow> report_only (snd s) r"
    using report_only_rewrite_DateTimeOriginal [of "(exif (fst s), snd s)"]
      report_only_set_offset_times [of _ o_s]
    by (auto simp: rewrite_dates_def split_def Let_def split: sum.splits
        intro: report_only_trans)
qed

lemma redact_report:
  assumes "redact c a o_s exifObj r0 = Inr (d, r) \<or> redact c a o_s exifObj r0 = Inl (e, r)"
  shows "success r = success r0" "originalSize r = originalSize r0"
    "''GPS (entire block)'' \<in> set (removedFields r)
       \<longleftrightarrow> gps exifObj \<noteq> [] \<or> ''GPS (entire block)'' \<in> set (removedFields r0)"
proof -
  from assms have "report_only (snd (remove_privacy c a exifObj r0)) r"
    unfolding redact_def by (auto dest: report_only_rewrite_dates)
  with snd_remove_privacy [of exifObj r0 c a]
  have "report_only (snd (remove_gps (exifObj, r0))) r"
    by (rule report_only_trans)
  then show "success r = success r0" "originalSize r = originalSize r0"
    "''GPS (entire block)'' \<in> set (removedFields r)
       \<longleftrightarrow> gps exifObj \<noteq> [] \<or> ''GPS (entire block)'' \<in> set (removedFields r0)"
    using remove_gps_report [of exifObj r0] by (simp_all add: report_only_def)
qed

lemma report_only_fallback_chain:
  "report_only r (snd (fallback_chain p url full minimal safe r))"
  by (simp add: fallback_chain_def minimal_tier_def safe_tier_def bare_strip_def
      report_only_refl report_only_push_removed split: sum.splits)

lemma redact_and_encode_report:
  assumes "redact_and_encode p url exifObj c a o_s r0 = Inr (cr, r)
         \<or> redact_and_encode p url exifObj c a o_s r0 = Inl (e, r)"
  shows "success r = success r0" "originalSize r = originalSize r0"
    "''GPS (entire block)'' \<in> set (removedFields r)
       \<longleftrightarrow> gps exifObj \<noteq> [] \<or> ''GPS (entire block)'' \<in> set (removedFields r0)"
proof -
  have "\<exists>d r1 e1. (redact c a o_s exifObj r0 = Inr (d, r1) \<or> redact c a o_s exifObj r0 = Inl (e1, r1))
          \<and> report_only r1 r"
  proof (cases "redact c a o_s exifObj r0")
    case (Inl x)
    obtain e1 r1 where x: "x = (e1, r1)" by (cases x)
    from assms Inl x have "r = r1"
      by (simp add: redact_and_encode_def Let_def)
    with Inl x show ?thesis
      by (auto simp: report_only_refl)
  next
    case (Inr y)
    obtain d r1 where y: "y = (d, r1)" by (cases y)
    from assms Inr y have "r = snd (fallback_chain p url
              (tier1_document d (get_tag (zeroth exifObj) Orientation))
              (minimalExif (zeroth d) (exif d) c a o_s)
              (safeExif c a (get_tag (zeroth exifObj) Orientation)) r1)"
      by (auto simp: redact_and_encode_def Let_def dest: arg_cong [where f = snd])
    then have "report_only r1 r"
      by (simp add: report_only_fallback_chain)
    with Inr y show ?thesis
      by auto
  qed
  then obtain d r1 e1 where
    red: "redact c a o_s exifObj r0 = Inr (d, r1) \<or> redact c a o_s exifObj r0 = Inl (e1, r1)"
    and ro: "report_only r1 r"
    by blast
  from redact_report [OF red] ro
  show "success r = success r0" "originalSize r = originalSize r0"
    "''GPS (entire block)'' \<in> set (removedFields r)
       \<longleftrightarrow> gps exifObj \<noteq> [] \<or> ''GPS (entire block)'' \<in> set (removedFields r0)"
    by (simp_all add: report_only_def)
qed


section \<open>The result of the whole function\<close>

lemma finish_props:
  "originalSize (finish ev f u r) = originalSize r"
  "removedFields (finish ev f u r) = removedFields r"
  "\<not> success (finish ev f u r) \<Longrightarrow>
     cleanedSize (finish ev f u r) = fsize f \<and> file (finish ev f u r) = Some f"
  by (simp_all add: finish_def catch_handler_def split: sum.splits)

lemma catch_handler_props:
  "originalSize (catch_handler f r e) = originalSize r"
  "removedFields (catch_handler f r e) = removedFields r"
  "success (catch_handler f r e) = success r"
  "cleanedSize (catch_handler f r e) = fsize f"
  "file (catch_handler f r e) = Some f"
  by (simp_all add: catch_handler_def)

lemma return_original_props:
  "originalSize (return_original f r n) = originalSize r"
  "removedFields (return_original f r n) = removedFields r"
  "success (return_original f r n) = True"
  by (simp_all add: return_original_def)

lemma jpeg_path_props:
  "originalSize (jpeg_path ev p url exifObj f c a o_s r0) = originalSize r0"
  "''GPS (entire block)'' \<in> set (removedFields (jpeg_path ev p url exifObj f c a o_s r0))
     \<longleftrightarrow> gps exifObj \<noteq> [] \<or> ''GPS (entire block)'' \<in> set (removedFields r0)"
  "\<not> success (jpeg_path ev p url exifObj f c a o_s r0) \<Longrightarrow>
     cleanedSize (jpeg_path ev p url exifObj f c a o_s r0) = fsize f
     \<and> file (jpeg_path ev p url exifObj f c a o_s r0) = Some f"
proof -
  let ?x = "redact_and_encode p url exifObj c a o_s r0"
  let ?res = "jpeg_path ev p url exifObj f c a o_s r0"
  have "originalSize ?res = originalSize r0
      \<and> (''GPS (entire block)'' \<in> set (removedFields ?res)
           \<longleftrightarrow> gps exifObj \<noteq> [] \<or> ''GPS (entire block)'' \<in> set (removedFields r0))
      \<and> (\<not> success ?res \<longrightarrow> cleanedSize ?res = fsize f \<and> file ?res = Some f)"
  proof (cases ?x)
    case (Inl er)
    obtain e r where er: "er = (e, r)" by (cases er)
    have x: "?x = Inr (undefined, r) \<or> ?x = Inl (e, r)"
      using Inl er by simp
    have res: "?res = catch_handler f r e"
      using Inl er by (simp add: jpeg_path_def)
    show ?thesis
      using redact_and_encode_report [OF x] by (simp add: res catch_handler_props)
  next
    case (Inr crr)
    obtain cr r where crr: "crr = (cr, r)" by (cases crr)
    have x: "?x = Inr (cr, r) \<or> ?x = Inl (undefined, r)"
      using Inr crr by simp
    show ?thesis
    proof (cases cr)
      case (Written t doc u)
      then have res: "?res = finish ev f u r"
        using Inr crr by (simp add: jpeg_path_def)
      show ?thesis
        using redact_and_encode_report [OF x] finish_props(3) [of ev f u r]
        by (simp add: res finish_props)
    next
      case (BareStripped u)
      then have res: "?res = finish ev f u r"
        using Inr crr by (simp add: jpeg_path_def)
      show ?thesis
        using redact_and_encode_report [OF x] finish_props(3) [of ev f u r]
        by (simp add: res finish_props)
    next
      case (Exhausted e)
      then have res: "?res = return_original f r (NOTE_PROCESSING_FAILED @ exn_message e)"
        using Inr crr by (simp add: jpeg_path_def)
      show ?thesis
        using redact_and_encode_report [OF x]
        by (simp add: res return_original_props)
    qed
  qed
  then show "originalSize ?res = originalSize r0"
    and "''GPS (entire block)'' \<in> set (removedFields ?res)
           \<longleftrightarrow> gps exifObj \<noteq> [] \<or> ''GPS (entire block)'' \<in> set (removedFields r0)"
    and "\<not> success ?res \<Longrightarrow> cleanedSize ?res = fsize f \<and> file ?res = Some f"
    by simp_all
qed

lemma heic_path_props:
  "originalSize (heic_path ev f c a o_s r0) = originalSize r0"
  "\<not> success (heic_path ev f c a o_s r0) \<Longrightarrow>
     cleanedSize (heic_path ev f c a o_s r0) = fsize f
     \<and> file (heic_path ev f c a o_s r0) = Some f"
  by (simp_all add: heic_path_def Let_def catch_handler_def push_removed_def push_added_def
      split: sum.splits)

lemma initial_result_simps:
  "originalSize (initial_result f) = fsize f"
  "removedFields (initial_result f) = []"
  "success (initial_result f) = False"
  by (simp_all add: initial_result_def)

lemma cleanupExifFromFile_originalSize:
  "originalSize (cleanupExifFromFile ev f opts) = fsize f"
  by (simp add: cleanupExifFromFile_def Let_def heic_path_props jpeg_path_props
      return_original_props catch_handler_props initial_result_simps split: sum.splits)

lemma cleanupExifFromFile_failed:
  "\<not> success (cleanupExifFromFile ev f opts) \<Longrightarrow>
     cleanedSize (cleanupExifFromFile ev f opts) = fsize f
     \<and> file (cleanupExifFromFile ev f opts) = Some f"
  using heic_path_props(2) jpeg_path_props(3)
  by (auto simp add: cleanupExifFromFile_def Let_def return_original_props catch_handler_props
      split: sum.splits if_splits)





subsection \<open>The batch loop\<close>

text \<open>The calls of the loop for the files from index \<open>i\<close> on.\<close>

lemma batch_loop_effect:
  "batch_loop ev opts cb n i fs (b, log) =
     (b\<lparr>results := results b @ map (\<lambda>f. cleanupExifFromFile ev f opts) fs,
        totalOriginalSize := totalOriginalSize b
          + sum_list (map (\<lambda>f. originalSize (cleanupExifFromFile ev f opts)) fs),
        totalCleanedSize := totalCleanedSize b
          + sum_list (map (\<lambda>f. cleanedSize (cleanupExifFromFile ev f opts)) fs),
        batch_success := batch_success b
          + length (filter (\<lambda>f. success (cleanupExifFromFile ev f opts)) fs),
        failed := failed b
          + length (filter (\<lambda>f. \<not> success (cleanupExifFromFile ev f opts)) fs)\<rparr>,
      log @ concat (map (\<lambda>(j, f). (if cb then [OnProgress (j + 1) n f] else []) @ [CleanupCall f])
                      (enumerate i fs)))"
proof (induction fs arbitrary: i b log)
  case Nil
  then show ?case by simp
next
  case (Cons f fs)
  show ?case
    by (simp add: Let_def Cons.IH)
qed


subsection \<open>Tier 1 on a valid document\<close>




section \<open>The tags that the redaction deletes\<close>






text \<open>
  \<open>XPAuthor\<close> and \<open>XPComment\<close> are in \<open>PRIVACY_TAGS\<close> as well, but no step of the
  redaction touches them: the redacted document holds them as the decoded one did. The
  documents of tiers 2 and 3 are built from other tags and hold neither.
\<close>

lemma xp_tags_not_deleted:
  assumes "redact c a o_s exifObj r0 = Inr (d, r)"
  shows "map_of (zeroth d) XPAuthor = map_of (zeroth exifObj) XPAuthor"
    and "map_of (zeroth d) XPComment = map_of (zeroth exifObj) XPComment"
  by (rule redact_zeroth_other [OF assms], simp_all add: tag_defs)+




section \<open>The outcomes of the fallback chain\<close>

text \<open>
  A tier that writes has serialised its document into the data URL that it leaves behind:
  tiers 1 and 2 into the data URL of the input, tier 3 into the stripped one. The result
  is then built from that data URL, and from the input file when the chain is exhausted.
\<close>

lemma fallback_chain_url:
  assumes "fallback_chain p url full minimal safe r = (Written t doc u, r')"
  shows "(t = Tier3 \<longrightarrow> strip_and_rebuild p url doc = Inr u)
       \<and> (t \<noteq> Tier3 \<longrightarrow> encode p doc url = Inr u)"
  using assms
  by (auto simp: fallback_chain_def minimal_tier_def safe_tier_def bare_strip_def
      split: sum.splits)


lemma redact_and_encode_url:
  assumes "redact_and_encode p url exifObj c a o_s r0 = Inr (Written t doc u, r')"
  shows "(t = Tier3 \<longrightarrow> strip_and_rebuild p url doc = Inr u)
       \<and> (t \<noteq> Tier3 \<longrightarrow> encode p doc url = Inr u)"
proof -
  from assms obtain d r where
    "fallback_chain p url (tier1_document d (get_tag (zeroth exifObj) Orientation))
       (minimalExif (zeroth d) (exif d) c a o_s)
       (safeExif c a (get_tag (zeroth exifObj) Orientation)) r = (Written t doc u, r')"
    by (auto simp: redact_and_encode_def Let_def split: sum.splits prod.splits)
  then show ?thesis
    by (rule fallback_chain_url)
qed


lemma finish_written:
  assumes "dataURLToBlob ev u = Inr b"
  shows "success (finish ev f u r) = True"
    and "blob (finish ev f u r) = Some b"
    and "file (finish ev f u r) = Some \<lparr>fname = fname f, ftype = ftype f, fbytes = bbytes b\<rparr>"
    and "cleanedSize (finish ev f u r) = bsize b"
  using assms by (simp_all add: finish_def)

lemma jpeg_path_written:
  assumes "redact_and_encode p url exifObj c a o_s r0 = Inr (Written t doc u, r')"
  shows "jpeg_path ev p url exifObj f c a o_s r0 = finish ev f u r'"
  using assms by (simp add: jpeg_path_def)



subsection \<open>A library that rejects the offset tags\<close>

text \<open>
  The documents of tiers 1 and 2 always hold the three offset tags. A library that rejects
  them therefore never writes at tier 1 or tier 2.
\<close>

lemma encode_rejected:
  assumes "\<exists>e. piexif_dump p doc = Inl e"
  shows "\<exists>e. encode p doc url = Inl e"
  using assms by (auto simp: encode_def)

lemma rejected_offsets_tier3:
  assumes w: "redact_and_encode p url exifObj c a o_s r0 = Inr (Written t doc u, r')"
    and wf: "wellformed_document exifObj"
    and rej: "\<forall>d. get_tag (exif d) OffsetTimeOriginal \<noteq> Undefined \<longrightarrow> (\<exists>e. piexif_dump p d = Inl e)"
  shows "t = Tier3"
proof (rule ccontr)
  assume t: "t \<noteq> Tier3"
  with attribution_and_offsets [OF w wf]
  have "get_tag (exif doc) OffsetTimeOriginal = Str o_s"
    by simp
  with rej have "\<exists>e. piexif_dump p doc = Inl e"
    by simp
  then have "\<exists>e. encode p doc url = Inl e"
    by (rule encode_rejected)
  moreover from redact_and_encode_url [OF w] t have "encode p doc url = Inr u"
    by simp
  ultimately show False
    by simp
qed

lemma rejects_offset_tags_tier3:
  assumes "redact_and_encode p url exifObj c a o_s r0 = Inr (Written t doc u, r')"
    and "wellformed_document exifObj" and "rejects_offset_tags p"
  shows "t = Tier3"
  using assms(3) unfolding rejects_offset_tags_def
  by (rule rejected_offsets_tier3 [OF assms(1,2)])

subsection \<open>The date tags in tier 3\<close>

lemma safeExif_without_dates:
  "get_tag (zeroth (safeExif c a ori)) DateTime = Undefined"
  "get_tag (exif (safeExif c a ori)) DateTimeOriginal = Undefined"
  by (simp_all add: safeExif_def Let_def empty_document_def get_tag_set_tag get_tag_Nil tag_defs)

lemma tier3_without_dates:
  assumes "redact_and_encode p url exifObj c a o_s r0 = Inr (Written Tier3 doc u, r')"
  shows "get_tag (exif doc) DateTimeOriginal = Undefined"
    and "get_tag (zeroth doc) DateTime = Undefined"
proof -
  from assms obtain d r where
    "(Tier3 = Tier1 \<and> doc = tier1_document d (get_tag (zeroth exifObj) Orientation))
       \<or> (Tier3 = Tier2 \<and> doc = minimalExif (zeroth d) (exif d) c a o_s)
       \<or> (Tier3 = Tier3 \<and> doc = safeExif c a (get_tag (zeroth exifObj) Orientation))"
    by (rule redact_and_encode_Written)
  then have doc: "doc = safeExif c a (get_tag (zeroth exifObj) Orientation)"
    by simp
  show "get_tag (exif doc) DateTimeOriginal = Undefined"
    and "get_tag (zeroth doc) DateTime = Undefined"
    by (simp_all add: doc safeExif_without_dates)
qed

section \<open>Evaluation on the sample inputs\<close>

lemmas redact_eval =
  redact_def remove_privacy_def remove_gps_def remove_device_info_def remove_exif_privacy_def
  remove_reported_def remove_thumbnail_def add_copyright_def rewrite_dates_def
  rewrite_DateTimeOriginal_def set_offset_times_def rewrite_DateTime_def
  get_tag_def set_tag_def delete_tag_def push_removed_def push_added_def Let_def
  empty_document_def tag_defs

lemma redact_doc_orientation: "\<exists>d r. redact c a o_s doc_orientation r0 = Inr (d, r)"
  by (simp add: redact_eval doc_orientation_def)

lemma redact_doc_date_malformed: "\<exists>d r. redact c a o_s (doc_date ''not-a-date'') r0 = Inr (d, r)"
  by (simp add: redact_eval doc_date_def is_digit_def)

lemma redact_doc_date_wellformed: "\<exists>d r. redact c a o_s (doc_date ''2023:05:14 13:45:22'') r0 = Inr (d, r)"
  by (simp add: redact_eval doc_date_def is_digit_def)




subsection \<open>Which tier the chain stops at\<close>

lemma chain_tier1:
  "encode p full url = Inr u \<Longrightarrow>
   fallback_chain p url full minimal safe r = (Written Tier1 full u, r)"
  by (simp add: fallback_chain_def)

lemma chain_tier2:
  "encode p full url = Inl e1 \<Longrightarrow> encode p minimal url = Inr u \<Longrightarrow>
   fallback_chain p url full minimal safe r =
     (Written Tier2 minimal u,
      push_removed r ''Some EXIF tags could not be preserved (display-related tags kept)'')"
  by (simp add: fallback_chain_def minimal_tier_def)

lemma chain_tier3:
  "encode p full url = Inl e1 \<Longrightarrow> encode p minimal url = Inl e2 \<Longrightarrow>
   strip_and_rebuild p url safe = Inr u \<Longrightarrow>
   fallback_chain p url full minimal safe r =
     (Written Tier3 safe u,
      push_removed r
        ''All EXIF stripped and rebuilt with minimal safe values (Orientation preserved)'')"
  by (simp add: fallback_chain_def minimal_tier_def safe_tier_def)

lemma chain_tier4:
  "encode p full url = Inl e1 \<Longrightarrow> encode p minimal url = Inl e2 \<Longrightarrow>
   strip_and_rebuild p url safe = Inl e3 \<Longrightarrow> piexif_remove p url = Inr u \<Longrightarrow>
   fallback_chain p url full minimal safe r =
     (BareStripped u, push_removed r ''All EXIF completely stripped (no new EXIF added)'')"
  by (simp add: fallback_chain_def minimal_tier_def safe_tier_def bare_strip_def)

lemma chain_exhausted:
  "encode p full url = Inl e1 \<Longrightarrow> encode p minimal url = Inl e2 \<Longrightarrow>
   strip_and_rebuild p url safe = Inl e3 \<Longrightarrow> piexif_remove p url = Inl e4 \<Longrightarrow>
   fallback_chain p url full minimal safe r = (Exhausted e1, r)"
  by (simp add: fallback_chain_def minimal_tier_def safe_tier_def bare_strip_def)

lemma sample_encode:
  "encode (sample_piexif decoded can_dump can_remove) doc url =
     (if can_dump doc then Inr (url @ ''Exif'') else Inl (Exn ''Error'' ''pack error''))"
  by (simp add: encode_def sample_piexif_simps)

lemma sample_strip_and_rebuild:
  "strip_and_rebuild (sample_piexif decoded can_dump can_remove) url doc =
     (if can_remove
      then (if can_dump doc then Inr (''stripped'' @ ''Exif'') else Inl (Exn ''Error'' ''pack error''))
      else Inl (Exn ''Error'' ''not a jpeg''))"
  by (simp add: strip_and_rebuild_def sample_encode sample_piexif_simps)

lemma cleanupExifFromFile_jpeg:
  assumes "\<not> isHeicFormat f" and "isJpegFormat f"
    and "loadPiexif ev = Inr p" and "blobToDataURL ev f = Inr url"
    and "piexif_load p url = Inr exifObj"
  shows "cleanupExifFromFile ev f opts =
     jpeg_path ev p url exifObj f
       (option_or (copyright opts) DEFAULT_COPYRIGHT)
       (option_or (artist opts) DEFAULT_ARTIST)
       (option_or (offsetTime opts) DEFAULT_OFFSET_TIME) (initial_result f)"
  using assms by (simp add: cleanupExifFromFile_def Let_def)

lemma sample_cleanup:
  "cleanupExifFromFile (sample_env (sample_piexif (Inr decoded) can_dump can_remove))
     sample_jpeg opts =
   jpeg_path (sample_env (sample_piexif (Inr decoded) can_dump can_remove))
     (sample_piexif (Inr decoded) can_dump can_remove) ''data:image/jpeg;base64,AAAA''
     decoded sample_jpeg
     (option_or (copyright opts) DEFAULT_COPYRIGHT)
     (option_or (artist opts) DEFAULT_ARTIST)
     (option_or (offsetTime opts) DEFAULT_OFFSET_TIME) (initial_result sample_jpeg)"
  by (rule cleanupExifFromFile_jpeg [OF sample_jpeg_not_heic sample_jpeg_is_jpeg])
    (simp_all add: sample_env_simps sample_piexif_simps)

lemma no_options_simps:
  "option_or (copyright no_options) DEFAULT_COPYRIGHT = DEFAULT_COPYRIGHT"
  "option_or (artist no_options) DEFAULT_ARTIST = DEFAULT_ARTIST"
  "option_or (offsetTime no_options) DEFAULT_OFFSET_TIME = DEFAULT_OFFSET_TIME"
  by (simp_all add: no_options_def option_or_def)

lemma success_finish_sample: "success (finish (sample_env p) f u r) = True"
  by (simp add: finish_def sample_env_simps)


lemma redact_empty_document:
  "redact c a o_s empty_document r0 =
     Inr (empty_document
            \<lparr>zeroth := [(Copyright, Str c), (Artist, Str a)],
             exif := [(OffsetTimeOriginal, Str o_s), (OffsetTimeDigitized, Str o_s),
                      (OffsetTime, Str o_s)]\<rparr>,
          r0\<lparr>addedFields := addedFields r0 @ [''Copyright: '' @ c, ''Artist: '' @ a,
                                             ''OffsetTimeOriginal: '' @ o_s]\<rparr>)"
  by (simp add: redact_eval)

lemma wellformed_empty_document: "wellformed_document empty_document"
  by (simp add: wellformed_document_def empty_document_def)

lemma exif_tier1_nonempty:
  "exif (tier1_document
           (empty_document
              \<lparr>zeroth := z,
               exif := [(OffsetTimeOriginal, Str o_s), (OffsetTimeDigitized, Str o_s),
                        (OffsetTime, Str o_s)]\<rparr>) ori) \<noteq> []"
  by (simp add: tier1_groups cleanExifIfd_def exifPreserveKeys_def set_tag_def tag_defs)

lemma exif_minimal_nonempty: "exif (minimalExif ifd0 exifIfd c a o_s) \<noteq> []"
  by (simp add: minimalExif_def Let_def set_tag_def)


lemma doc_date_simps:
  "wellformed_document (doc_date s)"
  "get_tag (exif (doc_date s)) DateTimeOriginal = Str s"
  by (simp_all add: doc_date_def wellformed_document_def empty_document_def get_tag_def)

lemma match_date_samples:
  "match_date ''2023:05:14 13:45:22'' \<noteq> None"
  "take 10 ''2023:05:14 13:45:22'' = ''2023:05:14''"
  "match_date ''not-a-date'' = None"
  by (simp_all add: is_digit_def)

lemma sample_tier1_written:
  assumes "\<exists>d r. redact c a o_s decoded r0 = Inr (d, r)"
  shows "\<exists>doc r. redact_and_encode (sample_piexif (Inr decoded) (\<lambda>d. True) True)
                    ''data:image/jpeg;base64,AAAA'' decoded c a o_s r0
                 = Inr (Written Tier1 doc (''data:image/jpeg;base64,AAAA'' @ ''Exif''), r)"
  using assms
  by (auto simp: redact_and_encode_def chain_tier1 sample_encode)


lemma sample_jpeg_result:
  "success (cleanupExifFromFile (sample_env (sample_piexif (Inr empty_document) (\<lambda>d. True) True))
              sample_jpeg no_options) = True"
  "cleanedSize (cleanupExifFromFile (sample_env (sample_piexif (Inr empty_document) (\<lambda>d. True) True))
              sample_jpeg no_options) = 31"
proof -
  let ?p = "sample_piexif (Inr empty_document) (\<lambda>d. True) True"
  have "\<exists>d r. redact DEFAULT_COPYRIGHT DEFAULT_ARTIST DEFAULT_OFFSET_TIME empty_document
                 (initial_result sample_jpeg) = Inr (d, r)"
    by (simp add: redact_empty_document)
  from sample_tier1_written [OF this] obtain doc r where
    x: "redact_and_encode ?p ''data:image/jpeg;base64,AAAA'' empty_document
          DEFAULT_COPYRIGHT DEFAULT_ARTIST DEFAULT_OFFSET_TIME (initial_result sample_jpeg)
        = Inr (Written Tier1 doc (''data:image/jpeg;base64,AAAA'' @ ''Exif''), r)"
    by blast
  have res: "cleanupExifFromFile (sample_env ?p) sample_jpeg no_options
               = finish (sample_env ?p) sample_jpeg (''data:image/jpeg;base64,AAAA'' @ ''Exif'') r"
    by (simp add: sample_cleanup no_options_simps jpeg_path_def x)
  show "success (cleanupExifFromFile (sample_env ?p) sample_jpeg no_options) = True"
    and "cleanedSize (cleanupExifFromFile (sample_env ?p) sample_jpeg no_options) = 31"
    by (simp_all add: res finish_def sample_env_simps bsize_def)
qed

lemma sample_heic_result:
  "success (cleanupExifFromFile (sample_env p) sample_heic opts) = False"
  "cleanedSize (cleanupExifFromFile (sample_env p) sample_heic opts) = 5"
  "originalSize (cleanupExifFromFile (sample_env p) sample_heic opts) = 5"
proof -
  show s: "success (cleanupExifFromFile (sample_env p) sample_heic opts) = False"
    using sample_heic_is_heic
    by (simp add: cleanupExifFromFile_def heic_path_def catch_handler_def push_removed_def
        initial_result_def Let_def sample_env_simps)
  show "cleanedSize (cleanupExifFromFile (sample_env p) sample_heic opts) = 5"
    using cleanupExifFromFile_failed [of "sample_env p" sample_heic opts] s
    by (simp add: fsize_def sample_heic_def)
  show "originalSize (cleanupExifFromFile (sample_env p) sample_heic opts) = 5"
    by (simp add: cleanupExifFromFile_originalSize fsize_def sample_heic_def)
qed










section \<open>The sample library that rejects the offset tags\<close>

lemma without_offset_tags_tiers:
  assumes "redact c a o_s exifObj r0 = Inr (d, r)" and "wellformed_document exifObj"
  shows "\<not> without_offset_tags (tier1_document d ori)"
    and "\<not> without_offset_tags (minimalExif z e c a o_s)"
    and "without_offset_tags (safeExif c a ori)"
proof -
  have "get_tag (exif d) OffsetTime = Str o_s"
    using redact_exif_offsets(1) [OF assms(1)] by (simp add: get_tag_def)
  then have "get_tag (exif (tier1_document d ori)) OffsetTime = Str o_s"
    by (rule tier1_exif_string [OF wellformed_redacted(2) [OF assms]])
      (simp add: exifPreserveKeys_def tag_defs)
  then show "\<not> without_offset_tags (tier1_document d ori)"
    by (simp add: without_offset_tags_def)
  show "\<not> without_offset_tags (minimalExif z e c a o_s)"
    by (simp add: without_offset_tags_def minimalExif_exif)
  show "without_offset_tags (safeExif c a ori)"
    by (simp add: without_offset_tags_def safeExif_groups get_tag_Nil)
qed

lemma sample_rejects_offset_tags:
  "\<forall>d. get_tag (exif d) OffsetTimeOriginal \<noteq> Undefined \<longrightarrow>
        (\<exists>e. piexif_dump (sample_piexif decoded without_offset_tags can_remove) d = Inl e)"
  by (simp add: sample_piexif_simps without_offset_tags_def)

lemma sample_rejects: "rejects_offset_tags (sample_piexif decoded without_offset_tags can_remove)"
  unfolding rejects_offset_tags_def by (rule sample_rejects_offset_tags)

lemma sample_tier3_written:
  assumes "redact c a o_s decoded r0 = Inr (d, r)" and "wellformed_document decoded"
  shows "redact_and_encode (sample_piexif (Inr decoded) without_offset_tags True)
           ''data:image/jpeg;base64,AAAA'' decoded c a o_s r0
         = Inr (Written Tier3 (safeExif c a (get_tag (zeroth decoded) Orientation))
                  (''stripped'' @ ''Exif''),
                push_removed r
                  ''All EXIF stripped and rebuilt with minimal safe values (Orientation preserved)'')"
  by (simp add: redact_and_encode_def assms(1) sample_encode sample_strip_and_rebuild
      without_offset_tags_tiers [OF assms]
      chain_tier3 [where ?e1.0 = "Exn ''Error'' ''pack error''"
        and ?e2.0 = "Exn ''Error'' ''pack error''"])


section \<open>Failure of the HEIC conversion\<close>

text \<open>
  Claim C10. For a HEIC/HEIF file whose pixel decoding raises, \<open>cleanupExifFromFile\<close>
  returns a failure: \<open>success\<close> is false and the file returned is the input. The entry
  "HEIC/HEIF converted to JPEG (all original metadata removed)" was pushed to
  \<open>removedFields\<close> before the conversion was tried and is still there, so the report
  of the failure names a removal that the returned file never saw.
\<close>

theorem heic_failure_keeps_removed_entry:
  assumes "isHeicFormat f" and "convertHeicToJpeg ev f = Inl e"
  shows "success (cleanupExifFromFile ev f opts) = False
       \<and> file (cleanupExifFromFile ev f opts) = Some f
       \<and> removedFields (cleanupExifFromFile ev f opts)
           = [''HEIC/HEIF converted to JPEG (all original metadata removed)'']
       \<and> removedFields (cleanupExifFromFile ev f opts) \<noteq> []"
  using assms
  by (simp add: cleanupExifFromFile_def heic_path_def catch_handler_def push_removed_def
      initial_result_def Let_def)

theorem heic_failure_keeps_removed_entry_witness:
  "success (cleanupExifFromFile
              (sample_env (sample_piexif (Inr empty_document) (\<lambda>d. True) True))
              sample_heic no_options) = False
   \<and> file (cleanupExifFromFile
              (sample_env (sample_piexif (Inr empty_document) (\<lambda>d. True) True))
              sample_heic no_options) = Some sample_heic
   \<and> removedFields (cleanupExifFromFile
              (sample_env (sample_piexif (Inr empty_document) (\<lambda>d. True) True))
              sample_heic no_options) \<noteq> []"
proof -
  let ?ev = "sample_env (sample_piexif (Inr empty_document) (\<lambda>d. True) True)"
  have h: "convertHeicToJpeg ?ev sample_heic = Inl (Exn ''Error'' ''HEIC decode failed'')"
    by (rule sample_env_simps)
  show ?thesis
    using heic_failure_keeps_removed_entry [OF sample_heic_is_heic h, of no_options]
    by simp
qed

section \<open>A JPEG file without a readable tag directory\<close>

text \<open>
  Claim C7. When the JPEG path is taken and \<open>piexif.load\<close> raises,
  \<open>cleanupExifFromFile\<close> returns \<open>success = true\<close>, the input file as \<open>file\<close> and
  \<open>blob\<close>, its size as \<open>cleanedSize\<close>, empty \<open>removedFields\<close> and
  \<open>addedFields\<close>, and the note "cannot parse EXIF data, returning the original file"
  in \<open>error\<close>. The JPEG path is taken for a file that \<open>isJpegFormat\<close> accepts and
  \<open>isHeicFormat\<close> rejects, once the library is loaded and the file is read.
\<close>

theorem decode_failure_is_successful_passthrough:
  assumes "\<not> isHeicFormat f" and "isJpegFormat f"
    and "loadPiexif ev = Inr p" and "blobToDataURL ev f = Inr dataURL"
    and "piexif_load p dataURL = Inl e"
  shows "success (cleanupExifFromFile ev f opts) = True
       \<and> file (cleanupExifFromFile ev f opts) = Some f
       \<and> blob (cleanupExifFromFile ev f opts) = Some (blob_of_file f)
       \<and> cleanedSize (cleanupExifFromFile ev f opts) = fsize f
       \<and> removedFields (cleanupExifFromFile ev f opts) = []
       \<and> addedFields (cleanupExifFromFile ev f opts) = []
       \<and> error (cleanupExifFromFile ev f opts) = Some NOTE_CANNOT_PARSE"
  using assms
  by (simp add: cleanupExifFromFile_def return_original_def initial_result_def Let_def)

theorem decode_failure_is_successful_passthrough_witness:
  "success (cleanupExifFromFile
              (sample_env (sample_piexif (Inl (Exn ''Error'' ''no exif'')) (\<lambda>d. True) True))
              sample_jpeg no_options) = True
   \<and> file (cleanupExifFromFile
              (sample_env (sample_piexif (Inl (Exn ''Error'' ''no exif'')) (\<lambda>d. True) True))
              sample_jpeg no_options) = Some sample_jpeg
   \<and> removedFields (cleanupExifFromFile
              (sample_env (sample_piexif (Inl (Exn ''Error'' ''no exif'')) (\<lambda>d. True) True))
              sample_jpeg no_options) = []
   \<and> addedFields (cleanupExifFromFile
              (sample_env (sample_piexif (Inl (Exn ''Error'' ''no exif'')) (\<lambda>d. True) True))
              sample_jpeg no_options) = []
   \<and> error (cleanupExifFromFile
              (sample_env (sample_piexif (Inl (Exn ''Error'' ''no exif'')) (\<lambda>d. True) True))
              sample_jpeg no_options) = Some NOTE_CANNOT_PARSE"
proof -
  let ?p = "sample_piexif (Inl (Exn ''Error'' ''no exif'')) (\<lambda>d. True) True"
  have h3: "loadPiexif (sample_env ?p) = Inr ?p"
    by (rule sample_env_simps)
  have h4: "blobToDataURL (sample_env ?p) sample_jpeg = Inr ''data:image/jpeg;base64,AAAA''"
    by (rule sample_env_simps)
  have h5: "piexif_load ?p ''data:image/jpeg;base64,AAAA'' = Inl (Exn ''Error'' ''no exif'')"
    by (rule sample_piexif_simps)
  show ?thesis
    using decode_failure_is_successful_passthrough
      [OF sample_jpeg_not_heic sample_jpeg_is_jpeg h3 h4 h5, of no_options]
    by simp
qed

section \<open>Orientation\<close>

text \<open>
  Claim C2, as amended. The decoded \<open>0th\<close> group holds an Orientation tag with the
  number \<open>v\<close>. Whenever tier 1, 2 or 3 of the fallback chain writes the output, the
  document it writes holds the Orientation tag with the value \<open>v\<close>: tier 1 and tier 3
  write back the value that was read before the redaction began, and tier 2 copies it
  from the redacted \<open>0th\<close> group, which the redaction leaves alone at this tag.
  Tier 4 writes no document, so the statement stops at tier 3.
\<close>

theorem orientation_kept_by_tiers_1_to_3:
  assumes "redact_and_encode p url exifObj c a o_s r0 = Inr (Written t doc u, r')"
    and "get_tag (zeroth exifObj) Orientation = Num (Fin v)"
  shows "get_tag (zeroth doc) Orientation = Num (Fin v)"
proof -
  from assms(1) obtain d r where red: "redact c a o_s exifObj r0 = Inr (d, r)"
    and tiers: "(t = Tier1 \<and> doc = tier1_document d (get_tag (zeroth exifObj) Orientation))
       \<or> (t = Tier2 \<and> doc = minimalExif (zeroth d) (exif d) c a o_s)
       \<or> (t = Tier3 \<and> doc = safeExif c a (get_tag (zeroth exifObj) Orientation))"
    by (rule redact_and_encode_Written)
  have "map_of (zeroth d) Orientation = map_of (zeroth exifObj) Orientation"
    by (rule redact_zeroth_other [OF red]) (simp_all add: tag_defs)
  then have kept: "get_tag (zeroth d) Orientation = Num (Fin v)"
    using assms(2) by (simp add: get_tag_def)
  from tiers show ?thesis
  proof (elim disjE conjE)
    assume "doc = tier1_document d (get_tag (zeroth exifObj) Orientation)"
    then show ?thesis
      by (simp add: assms(2) tier1_groups get_tag_set_tag)
  next
    assume "doc = minimalExif (zeroth d) (exif d) c a o_s"
    then show ?thesis
      by (simp add: minimalExif_zeroth kept)
  next
    assume "doc = safeExif c a (get_tag (zeroth exifObj) Orientation)"
    then show ?thesis
      by (simp add: assms(2) safeExif_zeroth)
  qed
qed

theorem orientation_kept_by_tiers_1_to_3_witness:
  "output_tag
     (redact_and_encode (sample_piexif (Inr doc_orientation) (\<lambda>d. True) True)
        ''data:image/jpeg;base64,AAAA'' doc_orientation
        DEFAULT_COPYRIGHT DEFAULT_ARTIST DEFAULT_OFFSET_TIME (initial_result sample_jpeg))
     zeroth Orientation = Num (Fin 6)"
proof -
  let ?p = "sample_piexif (Inr doc_orientation) (\<lambda>d. True) True"
  let ?x = "redact_and_encode ?p ''data:image/jpeg;base64,AAAA'' doc_orientation
              DEFAULT_COPYRIGHT DEFAULT_ARTIST DEFAULT_OFFSET_TIME (initial_result sample_jpeg)"
  obtain d r where red: "redact DEFAULT_COPYRIGHT DEFAULT_ARTIST DEFAULT_OFFSET_TIME
                           doc_orientation (initial_result sample_jpeg) = Inr (d, r)"
    using redact_doc_orientation by blast
  have x: "?x = Inr (Written Tier1 (tier1_document d (get_tag (zeroth doc_orientation) Orientation))
                       (''data:image/jpeg;base64,AAAA'' @ ''Exif''), r)"
    by (simp add: redact_and_encode_def red chain_tier1 sample_encode)
  have ori: "get_tag (zeroth doc_orientation) Orientation = Num (Fin 6)"
    by (simp add: doc_orientation_def get_tag_def)
  from orientation_kept_by_tiers_1_to_3 [OF x ori] show ?thesis
    by (simp add: output_tag_def output_document_def x)
qed

text \<open>
  The claim as it was stated includes tier 4. There the output is the bare strip of the
  input: for a decoded document with Orientation 6 and a library whose \<open>dump\<close> always
  raises while \<open>remove\<close> works, the call succeeds, reports the complete strip, and the
  output carries no Orientation tag.
\<close>

theorem orientation_lost_by_bare_strip:
  "get_tag (zeroth doc_orientation) Orientation = Num (Fin 6)
   \<and> output_tag
       (redact_and_encode (sample_piexif (Inr doc_orientation) (\<lambda>d. False) True)
          ''data:image/jpeg;base64,AAAA'' doc_orientation
          DEFAULT_COPYRIGHT DEFAULT_ARTIST DEFAULT_OFFSET_TIME (initial_result sample_jpeg))
       zeroth Orientation \<noteq> Num (Fin 6)
   \<and> success (cleanupExifFromFile
                (sample_env (sample_piexif (Inr doc_orientation) (\<lambda>d. False) True))
                sample_jpeg no_options) = True
   \<and> ''All EXIF completely stripped (no new EXIF added)''
       \<in> set (removedFields (cleanupExifFromFile
                (sample_env (sample_piexif (Inr doc_orientation) (\<lambda>d. False) True))
                sample_jpeg no_options))"
proof -
  let ?p = "sample_piexif (Inr doc_orientation) (\<lambda>d. False) True"
  let ?x = "redact_and_encode ?p ''data:image/jpeg;base64,AAAA'' doc_orientation
              DEFAULT_COPYRIGHT DEFAULT_ARTIST DEFAULT_OFFSET_TIME (initial_result sample_jpeg)"
  obtain d r where red: "redact DEFAULT_COPYRIGHT DEFAULT_ARTIST DEFAULT_OFFSET_TIME
                           doc_orientation (initial_result sample_jpeg) = Inr (d, r)"
    using redact_doc_orientation by blast
  have x: "?x = Inr (BareStripped ''stripped'',
                     push_removed r ''All EXIF completely stripped (no new EXIF added)'')"
    by (simp add: redact_and_encode_def red sample_encode sample_strip_and_rebuild
        sample_piexif_simps
        chain_tier4 [where ?e1.0 = "Exn ''Error'' ''pack error''"
          and ?e2.0 = "Exn ''Error'' ''pack error''" and ?e3.0 = "Exn ''Error'' ''pack error''"])
  have ori: "get_tag (zeroth doc_orientation) Orientation = Num (Fin 6)"
    by (simp add: doc_orientation_def get_tag_def)
  have out: "output_tag ?x zeroth Orientation \<noteq> Num (Fin 6)"
    by (simp add: output_tag_def output_document_def x)
  have res: "cleanupExifFromFile (sample_env ?p) sample_jpeg no_options =
      finish (sample_env ?p) sample_jpeg ''stripped''
        (push_removed r ''All EXIF completely stripped (no new EXIF added)'')"
    by (simp add: sample_cleanup no_options_simps jpeg_path_def x)
  show ?thesis
    using ori out
    by (simp add: res finish_def sample_env_simps push_removed_def)
qed


section \<open>Copyright, artist and the offset times\<close>

text \<open>
  Claim C6, as amended. The copyright, artist and offset strings are the configured ones,
  or the defaults \<open>DEFAULT_COPYRIGHT\<close>, \<open>DEFAULT_ARTIST\<close> and \<open>"+00:00"\<close> for an option
  that is not set. For a decoded document whose groups hold each key once: the document
  written by tier 1, 2 or 3 has these strings as its Copyright and Artist tags in the
  \<open>0th\<close> group, whatever the tags held before; the document written by tier 1 or 2 has
  the offset string as \<open>OffsetTime\<close>, \<open>OffsetTimeOriginal\<close> and
  \<open>OffsetTimeDigitized\<close> in the \<open>Exif\<close> group; the document of tier 3 has an empty
  \<open>Exif\<close> group.
\<close>

theorem attribution_and_offsets_by_tier:
  assumes "redact_and_encode p url exifObj
             (option_or (copyright opts) DEFAULT_COPYRIGHT)
             (option_or (artist opts) DEFAULT_ARTIST)
             (option_or (offsetTime opts) DEFAULT_OFFSET_TIME) r0 = Inr (Written t doc u, r')"
    and "wellformed_document exifObj"
  shows "get_tag (zeroth doc) Copyright = Str (option_or (copyright opts) DEFAULT_COPYRIGHT)
       \<and> get_tag (zeroth doc) Artist = Str (option_or (artist opts) DEFAULT_ARTIST)
       \<and> (t \<noteq> Tier3 \<longrightarrow>
            get_tag (exif doc) OffsetTime = Str (option_or (offsetTime opts) DEFAULT_OFFSET_TIME)
          \<and> get_tag (exif doc) OffsetTimeOriginal
              = Str (option_or (offsetTime opts) DEFAULT_OFFSET_TIME)
          \<and> get_tag (exif doc) OffsetTimeDigitized
              = Str (option_or (offsetTime opts) DEFAULT_OFFSET_TIME))
       \<and> (t = Tier3 \<longrightarrow> exif doc = [])"
  using assms by (rule attribution_and_offsets)

theorem attribution_and_offsets_by_tier_witness:
  "output_tag
     (redact_and_encode (sample_piexif (Inr empty_document) (\<lambda>d. True) True)
        ''data:image/jpeg;base64,AAAA'' empty_document
        DEFAULT_COPYRIGHT DEFAULT_ARTIST DEFAULT_OFFSET_TIME (initial_result sample_jpeg))
     zeroth Copyright = Str DEFAULT_COPYRIGHT
   \<and> output_tag
     (redact_and_encode (sample_piexif (Inr empty_document) (\<lambda>d. True) True)
        ''data:image/jpeg;base64,AAAA'' empty_document
        DEFAULT_COPYRIGHT DEFAULT_ARTIST DEFAULT_OFFSET_TIME (initial_result sample_jpeg))
     exif OffsetTime = Str DEFAULT_OFFSET_TIME"
proof -
  let ?p = "sample_piexif (Inr empty_document) (\<lambda>d. True) True"
  let ?x = "redact_and_encode ?p ''data:image/jpeg;base64,AAAA'' empty_document
        DEFAULT_COPYRIGHT DEFAULT_ARTIST DEFAULT_OFFSET_TIME (initial_result sample_jpeg)"
  obtain doc r where x: "?x = Inr (Written Tier1 doc (''data:image/jpeg;base64,AAAA'' @ ''Exif''), r)"
    by (simp add: redact_and_encode_def redact_empty_document chain_tier1 sample_encode)
  have x': "redact_and_encode ?p ''data:image/jpeg;base64,AAAA'' empty_document
        (option_or (copyright no_options) DEFAULT_COPYRIGHT)
        (option_or (artist no_options) DEFAULT_ARTIST)
        (option_or (offsetTime no_options) DEFAULT_OFFSET_TIME) (initial_result sample_jpeg)
      = Inr (Written Tier1 doc (''data:image/jpeg;base64,AAAA'' @ ''Exif''), r)"
    using x by (simp add: no_options_simps)
  have "get_tag (zeroth doc) Copyright = Str DEFAULT_COPYRIGHT
      \<and> get_tag (exif doc) OffsetTime = Str DEFAULT_OFFSET_TIME"
    using attribution_and_offsets_by_tier [OF x' wellformed_empty_document]
    by (simp add: no_options_simps)
  then show ?thesis
    by (simp add: output_tag_def output_document_def x)
qed

text \<open>
  The claim as it was stated speaks of every successful redaction. With a library whose
  \<open>dump\<close> rejects every document with a non-empty \<open>Exif\<close> group, tiers 1 and 2
  fail and tier 3 writes the output: the call returns \<open>success = true\<close>, and the
  output has no \<open>OffsetTime\<close> tag.
\<close>

theorem offsets_absent_after_safe_rebuild:
  "success (cleanupExifFromFile
              (sample_env (sample_piexif (Inr empty_document) (\<lambda>d. exif d = []) True))
              sample_jpeg no_options) = True
   \<and> ''All EXIF stripped and rebuilt with minimal safe values (Orientation preserved)''
       \<in> set (removedFields (cleanupExifFromFile
              (sample_env (sample_piexif (Inr empty_document) (\<lambda>d. exif d = []) True))
              sample_jpeg no_options))
   \<and> output_tag
       (redact_and_encode (sample_piexif (Inr empty_document) (\<lambda>d. exif d = []) True)
          ''data:image/jpeg;base64,AAAA'' empty_document
          DEFAULT_COPYRIGHT DEFAULT_ARTIST DEFAULT_OFFSET_TIME (initial_result sample_jpeg))
       exif OffsetTime = Undefined
   \<and> output_tag
       (redact_and_encode (sample_piexif (Inr empty_document) (\<lambda>d. exif d = []) True)
          ''data:image/jpeg;base64,AAAA'' empty_document
          DEFAULT_COPYRIGHT DEFAULT_ARTIST DEFAULT_OFFSET_TIME (initial_result sample_jpeg))
       exif OffsetTime \<noteq> Str DEFAULT_OFFSET_TIME"
proof -
  let ?p = "sample_piexif (Inr empty_document) (\<lambda>d. exif d = []) True"
  let ?x = "redact_and_encode ?p ''data:image/jpeg;base64,AAAA'' empty_document
              DEFAULT_COPYRIGHT DEFAULT_ARTIST DEFAULT_OFFSET_TIME (initial_result sample_jpeg)"
  let ?safe = "safeExif DEFAULT_COPYRIGHT DEFAULT_ARTIST (get_tag (zeroth empty_document) Orientation)"
  let ?r = "(initial_result sample_jpeg)
              \<lparr>addedFields := addedFields (initial_result sample_jpeg)
                 @ [''Copyright: '' @ DEFAULT_COPYRIGHT, ''Artist: '' @ DEFAULT_ARTIST,
                    ''OffsetTimeOriginal: '' @ DEFAULT_OFFSET_TIME]\<rparr>"
  have x: "?x = Inr (Written Tier3 ?safe (''stripped'' @ ''Exif''),
                     push_removed ?r
        ''All EXIF stripped and rebuilt with minimal safe values (Orientation preserved)'')"
    by (simp add: redact_and_encode_def redact_empty_document sample_encode
        sample_strip_and_rebuild exif_tier1_nonempty exif_minimal_nonempty safeExif_groups
        chain_tier3 [where ?e1.0 = "Exn ''Error'' ''pack error''"
          and ?e2.0 = "Exn ''Error'' ''pack error''"])
  have out: "output_tag ?x exif OffsetTime = Undefined"
    by (simp add: output_tag_def output_document_def x safeExif_groups get_tag_Nil)
  have res: "cleanupExifFromFile (sample_env ?p) sample_jpeg no_options =
      finish (sample_env ?p) sample_jpeg (''stripped'' @ ''Exif'')
        (push_removed ?r
          ''All EXIF stripped and rebuilt with minimal safe values (Orientation preserved)'')"
    by (simp add: sample_cleanup no_options_simps jpeg_path_def x)
  show ?thesis
    using out
    by (simp add: res finish_def sample_env_simps push_removed_def)
qed


section \<open>Timestamps\<close>

text \<open>
  Claim C3, as amended. The decoded document holds each key once, and a tier writes the
  output. When it is tier 1 or tier 2: if the value of \<open>DateTimeOriginal\<close> (in
  \<open>Exif\<close>) or of \<open>DateTime\<close> (in \<open>0th\<close>) is a string that starts with four digits,
  a colon, two digits, a colon and two digits, the written value is these ten characters
  followed by \<open>" 00:00:00"\<close>; if the value is a non-empty string without this prefix,
  the tag is written with the string as it was, since \<open>formatExifDate\<close> returns
  \<open>null\<close> and the code then leaves the tag alone. When it is tier 3, the written
  document holds neither tag, whatever the decoded values were. With a library that
  rejects the offset tags the tier is always tier 3.
\<close>

theorem dates_by_tier:
  assumes "redact_and_encode p url exifObj c a o_s r0 = Inr (Written t doc u, r')"
    and "wellformed_document exifObj"
  shows "(t \<noteq> Tier3 \<longrightarrow>
            (get_tag (exif exifObj) DateTimeOriginal = Str s \<longrightarrow> match_date s \<noteq> None \<longrightarrow>
               get_tag (exif doc) DateTimeOriginal = Str (take 10 s @ '' 00:00:00''))
          \<and> (get_tag (exif exifObj) DateTimeOriginal = Str s \<longrightarrow> match_date s = None \<longrightarrow>
               s \<noteq> [] \<longrightarrow> get_tag (exif doc) DateTimeOriginal = Str s)
          \<and> (get_tag (zeroth exifObj) DateTime = Str s \<longrightarrow> match_date s \<noteq> None \<longrightarrow>
               get_tag (zeroth doc) DateTime = Str (take 10 s @ '' 00:00:00''))
          \<and> (get_tag (zeroth exifObj) DateTime = Str s \<longrightarrow> match_date s = None \<longrightarrow>
               s \<noteq> [] \<longrightarrow> get_tag (zeroth doc) DateTime = Str s)
          \<and> encode p doc url = Inr u)
       \<and> (t = Tier3 \<longrightarrow>
            get_tag (exif doc) DateTimeOriginal = Undefined
          \<and> get_tag (zeroth doc) DateTime = Undefined
          \<and> strip_and_rebuild p url doc = Inr u)
       \<and> (rejects_offset_tags p \<longrightarrow> t = Tier3)"
proof -
  have nonempty: "match_date s \<noteq> None \<Longrightarrow> s \<noteq> []"
    by (cases s) simp_all
  have early: "(get_tag (exif exifObj) DateTimeOriginal = Str s \<longrightarrow> match_date s \<noteq> None \<longrightarrow>
               get_tag (exif doc) DateTimeOriginal = Str (take 10 s @ '' 00:00:00''))
          \<and> (get_tag (exif exifObj) DateTimeOriginal = Str s \<longrightarrow> match_date s = None \<longrightarrow>
               s \<noteq> [] \<longrightarrow> get_tag (exif doc) DateTimeOriginal = Str s)
          \<and> (get_tag (zeroth exifObj) DateTime = Str s \<longrightarrow> match_date s \<noteq> None \<longrightarrow>
               get_tag (zeroth doc) DateTime = Str (take 10 s @ '' 00:00:00''))
          \<and> (get_tag (zeroth exifObj) DateTime = Str s \<longrightarrow> match_date s = None \<longrightarrow>
               s \<noteq> [] \<longrightarrow> get_tag (zeroth doc) DateTime = Str s)
          \<and> encode p doc url = Inr u" if t: "t \<noteq> Tier3"
    using tiers_1_2_DateTimeOriginal [OF assms t, of s] tiers_1_2_DateTime [OF assms t, of s]
      nonempty redact_and_encode_url [OF assms(1)] t
    by auto
  have late: "get_tag (exif doc) DateTimeOriginal = Undefined
          \<and> get_tag (zeroth doc) DateTime = Undefined
          \<and> strip_and_rebuild p url doc = Inr u" if t: "t = Tier3"
    using tier3_without_dates [OF assms(1) [unfolded t]] redact_and_encode_url [OF assms(1)] t
    by simp
  have real: "t = Tier3" if "rejects_offset_tags p"
    using assms that by (rule rejects_offset_tags_tier3)
  from early late real show ?thesis
    by blast
qed

theorem dates_by_tier_witness:
  "map_option (\<lambda>d. get_tag (exif d) DateTimeOriginal)
     (output_document
        (redact_and_encode (sample_piexif (Inr (doc_date ''not-a-date'')) without_offset_tags True)
           ''data:image/jpeg;base64,AAAA'' (doc_date ''not-a-date'')
           DEFAULT_COPYRIGHT DEFAULT_ARTIST DEFAULT_OFFSET_TIME (initial_result sample_jpeg)))
     = Some Undefined
   \<and> output_tag
     (redact_and_encode (sample_piexif (Inr (doc_date ''2023:05:14 13:45:22'')) (\<lambda>d. True) True)
        ''data:image/jpeg;base64,AAAA'' (doc_date ''2023:05:14 13:45:22'')
        DEFAULT_COPYRIGHT DEFAULT_ARTIST DEFAULT_OFFSET_TIME (initial_result sample_jpeg))
     exif DateTimeOriginal = Str ''2023:05:14 00:00:00''
   \<and> output_tag
     (redact_and_encode (sample_piexif (Inr (doc_date ''not-a-date'')) (\<lambda>d. True) True)
        ''data:image/jpeg;base64,AAAA'' (doc_date ''not-a-date'')
        DEFAULT_COPYRIGHT DEFAULT_ARTIST DEFAULT_OFFSET_TIME (initial_result sample_jpeg))
     exif DateTimeOriginal = Str ''not-a-date''"
proof -
  let ?q = "sample_piexif (Inr (doc_date ''not-a-date'')) without_offset_tags True"
  let ?y = "redact_and_encode ?q ''data:image/jpeg;base64,AAAA'' (doc_date ''not-a-date'')
        DEFAULT_COPYRIGHT DEFAULT_ARTIST DEFAULT_OFFSET_TIME (initial_result sample_jpeg)"
  let ?x = "redact_and_encode (sample_piexif (Inr (doc_date ''2023:05:14 13:45:22'')) (\<lambda>d. True) True)
        ''data:image/jpeg;base64,AAAA'' (doc_date ''2023:05:14 13:45:22'')
        DEFAULT_COPYRIGHT DEFAULT_ARTIST DEFAULT_OFFSET_TIME (initial_result sample_jpeg)"
  obtain d r where red: "redact DEFAULT_COPYRIGHT DEFAULT_ARTIST DEFAULT_OFFSET_TIME
                           (doc_date ''not-a-date'') (initial_result sample_jpeg) = Inr (d, r)"
    using redact_doc_date_malformed by blast
  note y = sample_tier3_written [OF red doc_date_simps(1)]
  have q: "rejects_offset_tags ?q"
    by (rule sample_rejects)
  have "get_tag (exif (safeExif DEFAULT_COPYRIGHT DEFAULT_ARTIST
                         (get_tag (zeroth (doc_date ''not-a-date'')) Orientation)))
          DateTimeOriginal = Undefined"
    using dates_by_tier [OF y doc_date_simps(1), of "''not-a-date''"] q
    by blast
  then have first: "map_option (\<lambda>d. get_tag (exif d) DateTimeOriginal) (output_document ?y)
                      = Some Undefined"
    by (simp add: output_document_def y)
  obtain doc r1 where x: "?x = Inr (Written Tier1 doc (''data:image/jpeg;base64,AAAA'' @ ''Exif''), r1)"
    using sample_tier1_written [OF redact_doc_date_wellformed] by blast
  have t: "Tier1 \<noteq> Tier3" by simp
  have "get_tag (exif doc) DateTimeOriginal = Str (take 10 ''2023:05:14 13:45:22'' @ '' 00:00:00'')"
    using dates_by_tier [OF x doc_date_simps(1), of "''2023:05:14 13:45:22''"] t
      doc_date_simps(2) match_date_samples(1)
    by blast
  then have second: "output_tag ?x exif DateTimeOriginal = Str ''2023:05:14 00:00:00''"
    by (simp add: output_tag_def output_document_def x)
  let ?z = "redact_and_encode (sample_piexif (Inr (doc_date ''not-a-date'')) (\<lambda>d. True) True)
        ''data:image/jpeg;base64,AAAA'' (doc_date ''not-a-date'')
        DEFAULT_COPYRIGHT DEFAULT_ARTIST DEFAULT_OFFSET_TIME (initial_result sample_jpeg)"
  obtain doc2 r2 where
    z: "?z = Inr (Written Tier1 doc2 (''data:image/jpeg;base64,AAAA'' @ ''Exif''), r2)"
    using sample_tier1_written [OF redact_doc_date_malformed] by blast
  have ne: "''not-a-date'' \<noteq> []" by simp
  have "get_tag (exif doc2) DateTimeOriginal = Str ''not-a-date''"
    using dates_by_tier [OF z doc_date_simps(1), of "''not-a-date''"] t
      doc_date_simps(2) match_date_samples(3) ne
    by blast
  then have third: "output_tag ?z exif DateTimeOriginal = Str ''not-a-date''"
    by (simp add: output_tag_def output_document_def z)
  from first second third show ?thesis
    by simp
qed

text \<open>
  The claim as it was stated has \<open>"2023:05:14 00:00:00"\<close> in the output for the input
  value \<open>"2023:05:14 13:45:22"\<close>. \<open>formatExifDate\<close> does compute that string, but with
  a library that rejects the offset tags tier 3 writes the output: the call succeeds, the
  bytes it returns are those of the stripped input with the document of tier 3 inserted,
  and that document has no \<open>DateTimeOriginal\<close> tag.
\<close>

theorem wellformed_date_lost_by_safe_rebuild:
  "get_tag (exif (doc_date ''2023:05:14 13:45:22'')) DateTimeOriginal = Str ''2023:05:14 13:45:22''
   \<and> formatExifDate (Str ''2023:05:14 13:45:22'') = Inr (Some ''2023:05:14 00:00:00'')
   \<and> success (cleanupExifFromFile
                (sample_env (sample_piexif (Inr (doc_date ''2023:05:14 13:45:22''))
                               without_offset_tags True))
                sample_jpeg no_options) = True
   \<and> blob (cleanupExifFromFile
                (sample_env (sample_piexif (Inr (doc_date ''2023:05:14 13:45:22''))
                               without_offset_tags True))
                sample_jpeg no_options)
       = Some \<lparr>btype = ''image/jpeg'', bbytes = map of_char (''stripped'' @ ''Exif'')\<rparr>
   \<and> map_option (\<lambda>d. get_tag (exif d) DateTimeOriginal)
       (output_document
          (redact_and_encode
             (sample_piexif (Inr (doc_date ''2023:05:14 13:45:22'')) without_offset_tags True)
             ''data:image/jpeg;base64,AAAA'' (doc_date ''2023:05:14 13:45:22'')
             DEFAULT_COPYRIGHT DEFAULT_ARTIST DEFAULT_OFFSET_TIME (initial_result sample_jpeg)))
       = Some Undefined"
proof -
  let ?p = "sample_piexif (Inr (doc_date ''2023:05:14 13:45:22'')) without_offset_tags True"
  let ?R = "cleanupExifFromFile (sample_env ?p) sample_jpeg no_options"
  obtain d r where red: "redact DEFAULT_COPYRIGHT DEFAULT_ARTIST DEFAULT_OFFSET_TIME
                           (doc_date ''2023:05:14 13:45:22'') (initial_result sample_jpeg)
                         = Inr (d, r)"
    using redact_doc_date_wellformed by blast
  note x = sample_tier3_written [OF red doc_date_simps(1)]
  have R: "?R = jpeg_path (sample_env ?p) ?p ''data:image/jpeg;base64,AAAA''
                  (doc_date ''2023:05:14 13:45:22'') sample_jpeg
                  DEFAULT_COPYRIGHT DEFAULT_ARTIST DEFAULT_OFFSET_TIME (initial_result sample_jpeg)"
    by (simp add: sample_cleanup no_options_simps)
  have b: "dataURLToBlob (sample_env ?p) (''stripped'' @ ''Exif'')
             = Inr \<lparr>btype = ''image/jpeg'', bbytes = map of_char (''stripped'' @ ''Exif'')\<rparr>"
    by (rule sample_env_simps)
  have res: "success ?R = True
      \<and> blob ?R = Some \<lparr>btype = ''image/jpeg'', bbytes = map of_char (''stripped'' @ ''Exif'')\<rparr>"
    by (simp only: R jpeg_path_written [OF x] finish_written [OF b] simp_thms)
  have m: "formatExifDate (Str ''2023:05:14 13:45:22'') = Inr (Some ''2023:05:14 00:00:00'')"
    by (simp add: is_digit_def)
  have out: "map_option (\<lambda>d. get_tag (exif d) DateTimeOriginal)
       (output_document
          (redact_and_encode ?p ''data:image/jpeg;base64,AAAA'' (doc_date ''2023:05:14 13:45:22'')
             DEFAULT_COPYRIGHT DEFAULT_ARTIST DEFAULT_OFFSET_TIME (initial_result sample_jpeg)))
       = Some Undefined"
    by (simp add: output_document_def x safeExif_without_dates)
  from res m out show ?thesis
    by (simp add: doc_date_simps)
qed


section \<open>GPS\<close>





section \<open>Batches\<close>

text \<open>
  Claim C8. \<open>cleanupExifBatch\<close> handles the files one after the other in the order of
  the input: its calls are, for each file in turn, the progress callback (when one was
  passed) with the 1-based index, the number of files and the file, and then
  \<open>cleanupExifFromFile\<close> on that file. No file stops the loop: \<open>results\<close> holds the
  result of every file, in order. \<open>success\<close> counts the results whose flag is true,
  \<open>failed\<close> those whose flag is false, \<open>totalCleanedSize\<close> and
  \<open>totalOriginalSize\<close> are the sums of the results' sizes, and a failed result has its
  original size as \<open>cleanedSize\<close>. (The field \<open>success\<close> of the batch is called
  \<open>batch_success\<close> here, since a result has a field of the same name.)
\<close>

theorem batch_aggregation:
  "results (fst (cleanupExifBatch ev files opts cb))
     = map (\<lambda>f. cleanupExifFromFile ev f opts) files
   \<and> batch_success (fst (cleanupExifBatch ev files opts cb))
       = length (filter success (results (fst (cleanupExifBatch ev files opts cb))))
   \<and> failed (fst (cleanupExifBatch ev files opts cb))
       = length (filter (\<lambda>r. \<not> success r) (results (fst (cleanupExifBatch ev files opts cb))))
   \<and> totalCleanedSize (fst (cleanupExifBatch ev files opts cb))
       = sum_list (map cleanedSize (results (fst (cleanupExifBatch ev files opts cb))))
   \<and> totalOriginalSize (fst (cleanupExifBatch ev files opts cb))
       = sum_list (map originalSize (results (fst (cleanupExifBatch ev files opts cb))))
   \<and> (\<forall>r \<in> set (results (fst (cleanupExifBatch ev files opts cb))).
         \<not> success r \<longrightarrow> cleanedSize r = originalSize r)
   \<and> snd (cleanupExifBatch ev files opts cb)
       = concat (map (\<lambda>(j, f). (if cb then [OnProgress (j + 1) (length files) f] else [])
                                @ [CleanupCall f])
                   (enumerate 0 files))"
proof -
  have failed_size: "\<And>f. \<not> success (cleanupExifFromFile ev f opts) \<Longrightarrow>
      cleanedSize (cleanupExifFromFile ev f opts) = originalSize (cleanupExifFromFile ev f opts)"
    using cleanupExifFromFile_failed by (simp add: cleanupExifFromFile_originalSize)
  show ?thesis
    using failed_size
    by (auto simp: cleanupExifBatch_def batch_loop_effect filter_map comp_def)
qed

theorem batch_aggregation_witness:
  "batch_success
     (fst (cleanupExifBatch (sample_env (sample_piexif (Inr empty_document) (\<lambda>d. True) True))
             [sample_jpeg, sample_heic, sample_jpeg, sample_heic, sample_jpeg] no_options True)) = 3
   \<and> failed
     (fst (cleanupExifBatch (sample_env (sample_piexif (Inr empty_document) (\<lambda>d. True) True))
             [sample_jpeg, sample_heic, sample_jpeg, sample_heic, sample_jpeg] no_options True)) = 2
   \<and> totalCleanedSize
     (fst (cleanupExifBatch (sample_env (sample_piexif (Inr empty_document) (\<lambda>d. True) True))
             [sample_jpeg, sample_heic, sample_jpeg, sample_heic, sample_jpeg] no_options True))
       = 31 + 5 + 31 + 5 + 31
   \<and> cleanedSize
       (cleanupExifFromFile (sample_env (sample_piexif (Inr empty_document) (\<lambda>d. True) True))
          sample_heic no_options)
     = originalSize
       (cleanupExifFromFile (sample_env (sample_piexif (Inr empty_document) (\<lambda>d. True) True))
          sample_heic no_options)
   \<and> snd (cleanupExifBatch (sample_env (sample_piexif (Inr empty_document) (\<lambda>d. True) True))
             [sample_jpeg, sample_heic, sample_jpeg, sample_heic, sample_jpeg] no_options True)
       = [OnProgress 1 5 sample_jpeg, CleanupCall sample_jpeg,
          OnProgress 2 5 sample_heic, CleanupCall sample_heic,
          OnProgress 3 5 sample_jpeg, CleanupCall sample_jpeg,
          OnProgress 4 5 sample_heic, CleanupCall sample_heic,
          OnProgress 5 5 sample_jpeg, CleanupCall sample_jpeg]"
proof -
  let ?ev = "sample_env (sample_piexif (Inr empty_document) (\<lambda>d. True) True)"
  let ?files = "[sample_jpeg, sample_heic, sample_jpeg, sample_heic, sample_jpeg]"
  note inst = batch_aggregation [of ?ev ?files no_options True]
  have mem: "cleanupExifFromFile ?ev sample_heic no_options
               \<in> set (results (fst (cleanupExifBatch ?ev ?files no_options True)))"
    using inst by simp
  have "cleanedSize (cleanupExifFromFile ?ev sample_heic no_options)
          = originalSize (cleanupExifFromFile ?ev sample_heic no_options)"
    using inst mem sample_heic_result(1) [of "sample_piexif (Inr empty_document) (\<lambda>d. True) True" no_options]
    by blast
  then show ?thesis
    using inst by (simp add: sample_jpeg_result sample_heic_result enumerate_eq_zip)
qed


section \<open>The chain exhausted\<close>

text \<open>
  Claim C1, as amended. A JPEG file reaches \<open>piexif.load\<close>, is decoded and redacted,
  and then every tier raises: the encoding of the tier-1 document, the encoding of the
  minimal document, the strip-and-rebuild of tier 3 and the bare strip of tier 4. Then
  \<open>cleanupExifFromFile\<close> returns the input file itself as \<open>file\<close> and \<open>blob\<close>,
  with its size as \<open>cleanedSize\<close>, with \<open>success = true\<close>, and with an \<open>error\<close>
  text made of the note "EXIF processing failed, returning the original file" and the
  message of the first dump error.
\<close>

theorem exhausted_chain_returns_original_with_success:
  assumes "\<not> isHeicFormat f" and "isJpegFormat f"
    and "loadPiexif ev = Inr p" and "blobToDataURL ev f = Inr url"
    and "piexif_load p url = Inr exifObj"
    and "redact (option_or (copyright opts) DEFAULT_COPYRIGHT)
           (option_or (artist opts) DEFAULT_ARTIST)
           (option_or (offsetTime opts) DEFAULT_OFFSET_TIME) exifObj (initial_result f)
         = Inr (d, r)"
    and "encode p (tier1_document d (get_tag (zeroth exifObj) Orientation)) url = Inl e1"
    and "encode p (minimalExif (zeroth d) (exif d)
                     (option_or (copyright opts) DEFAULT_COPYRIGHT)
                     (option_or (artist opts) DEFAULT_ARTIST)
                     (option_or (offsetTime opts) DEFAULT_OFFSET_TIME)) url = Inl e2"
    and "strip_and_rebuild p url
           (safeExif (option_or (copyright opts) DEFAULT_COPYRIGHT)
              (option_or (artist opts) DEFAULT_ARTIST)
              (get_tag (zeroth exifObj) Orientation)) = Inl e3"
    and "piexif_remove p url = Inl e4"
  shows "file (cleanupExifFromFile ev f opts) = Some f
       \<and> blob (cleanupExifFromFile ev f opts) = Some (blob_of_file f)
       \<and> cleanedSize (cleanupExifFromFile ev f opts) = fsize f
       \<and> success (cleanupExifFromFile ev f opts) = True
       \<and> error (cleanupExifFromFile ev f opts)
           = Some (NOTE_PROCESSING_FAILED @ exn_message e1)"
  by (simp add: cleanupExifFromFile_jpeg [OF assms(1-5)] jpeg_path_def redact_and_encode_def
      assms(6) chain_exhausted [OF assms(7-10)] return_original_def)

theorem exhausted_chain_returns_original_with_success_witness:
  "file (cleanupExifFromFile
           (sample_env (sample_piexif (Inr empty_document) (\<lambda>d. False) False))
           sample_jpeg no_options) = Some sample_jpeg
   \<and> success (cleanupExifFromFile
           (sample_env (sample_piexif (Inr empty_document) (\<lambda>d. False) False))
           sample_jpeg no_options) = True
   \<and> error (cleanupExifFromFile
           (sample_env (sample_piexif (Inr empty_document) (\<lambda>d. False) False))
           sample_jpeg no_options) = Some (NOTE_PROCESSING_FAILED @ ''pack error'')"
proof -
  let ?p = "sample_piexif (Inr empty_document) (\<lambda>d. False) False"
  have h3: "loadPiexif (sample_env ?p) = Inr ?p"
    by (rule sample_env_simps)
  have h4: "blobToDataURL (sample_env ?p) sample_jpeg = Inr ''data:image/jpeg;base64,AAAA''"
    by (rule sample_env_simps)
  have h5: "piexif_load ?p ''data:image/jpeg;base64,AAAA'' = Inr empty_document"
    by (rule sample_piexif_simps)
  obtain d r where h6: "redact (option_or (copyright no_options) DEFAULT_COPYRIGHT)
           (option_or (artist no_options) DEFAULT_ARTIST)
           (option_or (offsetTime no_options) DEFAULT_OFFSET_TIME) empty_document
           (initial_result sample_jpeg) = Inr (d, r)"
    by (simp add: redact_empty_document)
  have h7: "encode ?p (tier1_document d (get_tag (zeroth empty_document) Orientation))
              ''data:image/jpeg;base64,AAAA'' = Inl (Exn ''Error'' ''pack error'')"
    by (simp add: sample_encode)
  have h8: "encode ?p (minimalExif (zeroth d) (exif d)
                     (option_or (copyright no_options) DEFAULT_COPYRIGHT)
                     (option_or (artist no_options) DEFAULT_ARTIST)
                     (option_or (offsetTime no_options) DEFAULT_OFFSET_TIME))
              ''data:image/jpeg;base64,AAAA'' = Inl (Exn ''Error'' ''pack error'')"
    by (simp add: sample_encode)
  have h9: "strip_and_rebuild ?p ''data:image/jpeg;base64,AAAA''
           (safeExif (option_or (copyright no_options) DEFAULT_COPYRIGHT)
              (option_or (artist no_options) DEFAULT_ARTIST)
              (get_tag (zeroth empty_document) Orientation)) = Inl (Exn ''Error'' ''not a jpeg'')"
    by (simp add: sample_strip_and_rebuild)
  have h10: "piexif_remove ?p ''data:image/jpeg;base64,AAAA'' = Inl (Exn ''Error'' ''not a jpeg'')"
    by (simp add: sample_piexif_simps)
  show ?thesis
    using exhausted_chain_returns_original_with_success
      [OF sample_jpeg_not_heic sample_jpeg_is_jpeg h3 h4 h5 h6 h7 h8 h9 h10]
    by simp
qed

text \<open>
  The claim as it was stated has \<open>success = false\<close> here. With a library whose
  \<open>dump\<close> and \<open>remove\<close> always raise, the chain is exhausted, the input file comes
  back, and the flag is true: the last \<open>catch\<close> sets it before it returns.
\<close>

theorem exhausted_chain_is_not_a_failure:
  "map_sum fst fst
     (redact_and_encode (sample_piexif (Inr empty_document) (\<lambda>d. False) False)
        ''data:image/jpeg;base64,AAAA'' empty_document
        DEFAULT_COPYRIGHT DEFAULT_ARTIST DEFAULT_OFFSET_TIME (initial_result sample_jpeg))
     = Inr (Exhausted (Exn ''Error'' ''pack error''))
   \<and> file (cleanupExifFromFile
           (sample_env (sample_piexif (Inr empty_document) (\<lambda>d. False) False))
           sample_jpeg no_options) = Some sample_jpeg
   \<and> success (cleanupExifFromFile
           (sample_env (sample_piexif (Inr empty_document) (\<lambda>d. False) False))
           sample_jpeg no_options) \<noteq> False"
proof -
  let ?p = "sample_piexif (Inr empty_document) (\<lambda>d. False) False"
  let ?r = "(initial_result sample_jpeg)
              \<lparr>addedFields := addedFields (initial_result sample_jpeg)
                 @ [''Copyright: '' @ DEFAULT_COPYRIGHT, ''Artist: '' @ DEFAULT_ARTIST,
                    ''OffsetTimeOriginal: '' @ DEFAULT_OFFSET_TIME]\<rparr>"
  have x: "redact_and_encode ?p ''data:image/jpeg;base64,AAAA'' empty_document
        DEFAULT_COPYRIGHT DEFAULT_ARTIST DEFAULT_OFFSET_TIME (initial_result sample_jpeg)
      = Inr (Exhausted (Exn ''Error'' ''pack error''), ?r)"
    by (simp add: redact_and_encode_def redact_empty_document sample_encode
        sample_strip_and_rebuild sample_piexif_simps
        chain_exhausted [where ?e2.0 = "Exn ''Error'' ''pack error''"
          and ?e3.0 = "Exn ''Error'' ''not a jpeg''" and ?e4.0 = "Exn ''Error'' ''not a jpeg''"])
  have res: "cleanupExifFromFile (sample_env ?p) sample_jpeg no_options
      = return_original sample_jpeg ?r
          (NOTE_PROCESSING_FAILED @ exn_message (Exn ''Error'' ''pack error''))"
    by (simp add: sample_cleanup no_options_simps jpeg_path_def x)
  show ?thesis
    by (simp add: x res return_original_def)
qed


section \<open>The two versions of the cleaner\<close>





section \<open>The tags of PRIVACY_TAGS\<close>





end
